theory Spec2Isabelle
  imports Complex_Main "HOL-Library.Word" "HOL-Library.Sublist"
begin

unbundle bit_operations_syntax

section \<open>Task records and the CRUD layer\<close>

text \<open>
  The \<open>Todo\<close> interface of the type declarations. Every field is a string at run time
  (the priority is one of the string literals \<open>low\<close>, \<open>medium\<close>, \<open>high\<close>); the optional
  bookkeeping fields are never read by the voice assistant and are left out.
  A JavaScript string is modelled as a \<open>string\<close> whose characters are its UTF-16 code
  units; the character type holds the code units below 256 (the Latin-1 range), and
  strings with other code units are not values of the model.
\<close>

record todo =
  todo_id :: string
  title :: string
  description :: string
  due_date :: string
  priority :: string

text \<open>The second argument of \<open>api.updateTodo\<close>: a \<open>Partial<Todo>\<close> with four fields,
  each possibly \<open>undefined\<close> (\<open>None\<close>).\<close>

record todo_patch =
  patch_title :: "string option"
  patch_description :: "string option"
  patch_priority :: "string option"
  patch_due_date :: "string option"

text \<open>
  One request to the CRUD layer of \<open>services/api.ts\<close>, with its arguments as passed.
  \<open>createTodo (title, description, priority, due_date)\<close>: the title is \<open>None\<close> when the
  caller passes \<open>undefined\<close>, the due date is \<open>None\<close> when the caller passes \<open>null\<close>.
\<close>

datatype crud_call =
    CreateTodo "string option" string string "string option"
  | UpdateTodo "string option" todo_patch
  | DeleteTodo "string option"

text \<open>A thrown JavaScript \<open>Error\<close> with its \<open>message\<close>.\<close>

datatype js_error = Error string

text \<open>What a handler does to the outside, in order.\<close>

datatype effect =
    Crud crud_call
  | OnUpdate
  | ConsoleError string js_error

text \<open>
  The surroundings of a handler: the mirrored task list (\<open>todosRef.current\<close>), the REST
  backend behind \<open>api\<close> (for each request, \<open>None\<close> when it succeeds and \<open>Some e\<close> when it
  throws \<open>e\<close>), the clock \<open>Date.now()\<close> in milliseconds and the built-in
  \<open>Date.prototype.toISOString\<close>.
\<close>

record bridge_env =
  todosRef :: "todo list"
  api :: "crud_call \<Rightarrow> js_error option"
  date_now :: int
  toISOString :: "int \<Rightarrow> string"

section \<open>JavaScript string helpers\<close>

text \<open>\<open>a || d\<close> for a string-or-undefined \<open>a\<close>: \<open>undefined\<close> and the empty string are
  falsy.\<close>

definition or_else :: "string option \<Rightarrow> string \<Rightarrow> string" where
  "or_else a d = (case a of None \<Rightarrow> d | Some s \<Rightarrow> if s = [] then d else s)"

text \<open>
  \<open>String.prototype.toLowerCase\<close>. Among the code units below 256 the upper-case
  letters are \<open>A\<close> to \<open>Z\<close> (65 to 90) and the Latin-1 capitals 0xC0 to 0xDE without the
  multiplication sign 0xD7 (192 to 214 and 216 to 222); each has its lower-case form 32
  places further on, and every other code unit is left as it is.
\<close>

definition lower_char :: "char \<Rightarrow> char" where
  "lower_char c =
     (let n = (of_char c :: nat)
      in if (65 \<le> n \<and> n \<le> 90) \<or> (192 \<le> n \<and> n \<le> 214) \<or> (216 \<le> n \<and> n \<le> 222)
         then char_of (n + 32) else c)"

definition toLowerCase :: "string \<Rightarrow> string" where
  "toLowerCase s = map lower_char s"

text \<open>\<open>String.prototype.startsWith\<close> and \<open>String.prototype.includes\<close>.\<close>

fun startsWith :: "string \<Rightarrow> string \<Rightarrow> bool" where
  "startsWith s [] = True"
| "startsWith [] (q # qs) = False"
| "startsWith (c # cs) (q # qs) = (c = q \<and> startsWith cs qs)"

fun includes_str :: "string \<Rightarrow> string \<Rightarrow> bool" where
  "includes_str [] q = (q = [])"
| "includes_str (c # cs) q = (startsWith (c # cs) q \<or> includes_str cs q)"

text \<open>\<open>Array.prototype.join\<close>.\<close>

fun join :: "string list \<Rightarrow> string \<Rightarrow> string" where
  "join [] sep = []"
| "join [x] sep = x"
| "join (x # y # ys) sep = x @ sep @ join (y # ys) sep"

text \<open>A template literal prints \<open>undefined\<close> for a missing value.\<close>

definition template :: "string option \<Rightarrow> string" where
  "template a = (case a of None \<Rightarrow> ''undefined'' | Some s \<Rightarrow> s)"

text \<open>The message of the \<open>TypeError\<close> raised by reading property \<open>p\<close> of \<open>undefined\<close>
  (the wording is the engine's; V8's is used).\<close>

definition type_error :: "string \<Rightarrow> js_error" where
  "type_error p = Error (''Cannot read properties of undefined (reading '' @ [CHR 0x27] @ p @ [CHR 0x27] @ '')'')"

subsection \<open>Letter case, stated on its own\<close>






section \<open>The tool-call bridge (Gemini session): \<open>handleToolCall\<close>\<close>

text \<open>The arguments object of a function call; every property may be missing.\<close>

record tool_args =
  arg_title :: "string option"
  arg_description :: "string option"
  arg_priority :: "string option"
  arg_due_date :: "string option"
  search_title :: "string option"
  new_title :: "string option"
  new_description :: "string option"
  new_priority :: "string option"
  new_due_date :: "string option"

record function_call =
  fc_name :: string
  fc_args :: "tool_args option"

text \<open>One entry of \<open>toolDefinitions\<close>: the tool's name, its declared properties and
  the properties it declares as required.\<close>

record tool_definition =
  tool_name :: string
  tool_properties :: "string list"
  tool_required :: "string list"

definition toolDefinitions :: "tool_definition list" where
  "toolDefinitions =
     [\<lparr>tool_name = ''get_todos'', tool_properties = [], tool_required = []\<rparr>,
      \<lparr>tool_name = ''create_todo'',
       tool_properties = [''title'', ''description'', ''priority'', ''due_date''],
       tool_required = [''title'']\<rparr>,
      \<lparr>tool_name = ''delete_todo'', tool_properties = [''search_title''],
       tool_required = [''search_title'']\<rparr>,
      \<lparr>tool_name = ''update_todo'',
       tool_properties = [''search_title'', ''new_title'', ''new_description'', ''new_priority'',
         ''new_due_date''],
       tool_required = [''search_title'']\<rparr>]"

text \<open>The entries of the listing returned by \<open>get_todos\<close>.\<close>

record todo_summary =
  sum_title :: string
  sum_priority :: string
  sum_due_date :: string
  sum_description :: string

text \<open>The value of \<open>result\<close>: \<open>{ error }\<close>, \<open>{ todos }\<close> or \<open>{ status, message }\<close>.\<close>

datatype tool_result =
    ErrorOnly string
  | Todos "todo_summary list"
  | Status string string

text \<open>The body of the \<open>try\<close> block yields the result or the thrown error, together with
  the effects performed up to that point.\<close>

type_synonym attempt = "(js_error + tool_result) \<times> effect list"

text \<open>\<open>await api.f (...)\<close> followed by \<open>onUpdateRef.current ()\<close> and the assignment of the
  success result: the refresh and the result are reached only when the call does not
  throw.\<close>

definition crud_then :: "bridge_env \<Rightarrow> crud_call \<Rightarrow> tool_result \<Rightarrow> attempt" where
  "crud_then env c r =
     (case api env c of
        Some e \<Rightarrow> (Inl e, [Crud c])
      | None \<Rightarrow> (Inr r, [Crud c, OnUpdate]))"

definition find_matches :: "bridge_env \<Rightarrow> string \<Rightarrow> todo list" where
  "find_matches env q =
     (let query = toLowerCase q
      in filter (\<lambda>t. includes_str (toLowerCase (title t)) query) (todosRef env))"

definition create_branch :: "bridge_env \<Rightarrow> tool_args option \<Rightarrow> attempt" where
  \<open>create_branch env a =
     (case a of
        None \<Rightarrow> (Inl (type_error ''priority''), [])
      | Some args \<Rightarrow>
          (let priority = or_else (arg_priority args) ''medium'';
               dueDate = or_else (arg_due_date args) (toISOString env (date_now env + 86400000))
           in crud_then env
                (CreateTodo (arg_title args) (or_else (arg_description args) '''') priority
                   (Some dueDate))
                (Status ''success'' (''Created task "'' @ template (arg_title args) @ ''"''))))\<close>

definition delete_branch :: "bridge_env \<Rightarrow> tool_args option \<Rightarrow> attempt" where
  \<open>delete_branch env a =
     (case a of
        None \<Rightarrow> (Inl (type_error ''search_title''), [])
      | Some args \<Rightarrow>
          (case search_title args of
             None \<Rightarrow> (Inl (type_error ''toLowerCase''), [])
           | Some q \<Rightarrow>
               (let matches = find_matches env q
                in if length matches = 0 then
                     (Inr (Status ''error'' ''No task found matching that name.''), [])
                   else if length matches > 1 then
                     (Inr (Status ''error''
                        (''Multiple tasks found: '' @ join (map title matches) '', ''
                           @ ''. Please be more specific.'')), [])
                   else
                     crud_then env (DeleteTodo (Some (todo_id (hd matches))))
                       (Status ''success'' (''Deleted task "'' @ title (hd matches) @ ''"'')))))\<close>

text \<open>The object passed to \<open>api.updateTodo\<close> by the \<open>update_todo\<close> branch.\<close>

definition update_payload :: "tool_args \<Rightarrow> todo \<Rightarrow> todo_patch" where
  "update_payload args todo =
     \<lparr>patch_title = Some (or_else (new_title args) (title todo)),
      patch_description = Some (or_else (new_description args) (description todo)),
      patch_priority = Some (or_else (new_priority args) (priority todo)),
      patch_due_date = Some (or_else (new_due_date args) (due_date todo))\<rparr>"

definition update_branch :: "bridge_env \<Rightarrow> tool_args option \<Rightarrow> attempt" where
  \<open>update_branch env a =
     (case a of
        None \<Rightarrow> (Inl (type_error ''search_title''), [])
      | Some args \<Rightarrow>
          (case search_title args of
             None \<Rightarrow> (Inl (type_error ''toLowerCase''), [])
           | Some q \<Rightarrow>
               (let matches = find_matches env q
                in if length matches = 0 then
                     (Inr (Status ''error'' ''No task found matching that name.''), [])
                   else if length matches > 1 then
                     (Inr (Status ''error''
                        (''Multiple tasks found: '' @ join (map title matches) '', '' @ ''.'')), [])
                   else
                     (let todo = hd matches
                      in crud_then env (UpdateTodo (Some (todo_id todo)) (update_payload args todo))
                           (Status ''success'' (''Updated task "'' @ title todo @ ''"''))))))\<close>

definition summary :: "todo \<Rightarrow> todo_summary" where
  "summary t =
     \<lparr>sum_title = title t, sum_priority = priority t, sum_due_date = due_date t,
      sum_description = description t\<rparr>"

definition tool_body :: "bridge_env \<Rightarrow> function_call \<Rightarrow> attempt" where
  "tool_body env fc =
     (if fc_name fc = ''get_todos'' then (Inr (Todos (map summary (todosRef env))), [])
      else if fc_name fc = ''create_todo'' then create_branch env (fc_args fc)
      else if fc_name fc = ''delete_todo'' then delete_branch env (fc_args fc)
      else if fc_name fc = ''update_todo'' then update_branch env (fc_args fc)
      else (Inr (ErrorOnly ''Unknown tool''), []))"

text \<open>The \<open>catch\<close> clause: \<open>{ status: 'error', message: e.message || 'Action failed' }\<close>.\<close>

definition caught :: "js_error \<Rightarrow> tool_result" where
  "caught e = (case e of Error m \<Rightarrow> Status ''error'' (if m = [] then ''Action failed'' else m))"

definition handleToolCall :: "bridge_env \<Rightarrow> function_call \<Rightarrow> tool_result \<times> effect list" where
  "handleToolCall env fc =
     (case tool_body env fc of
        (Inr r, effs) \<Rightarrow> (r, effs)
      | (Inl e, effs) \<Rightarrow> (caught e, effs))"

section \<open>The action handler (WebSocket session): \<open>handleAction\<close>\<close>

text \<open>The \<open>data\<close> object of an \<open>action\<close> message.\<close>

record action_data =
  data_id :: "string option"
  data_title :: "string option"
  data_description :: "string option"
  data_priority :: "string option"
  data_due_date :: "string option"

text \<open>\<open>await api.f (...)\<close> followed by \<open>onUpdateRef.current ()\<close>.\<close>

definition crud_refresh :: "bridge_env \<Rightarrow> crud_call \<Rightarrow> (js_error + unit) \<times> effect list" where
  "crud_refresh env c =
     (case api env c of
        Some e \<Rightarrow> (Inl e, [Crud c])
      | None \<Rightarrow> (Inr (), [Crud c, OnUpdate]))"

definition action_body ::
  "bridge_env \<Rightarrow> string \<Rightarrow> action_data option \<Rightarrow> (js_error + unit) \<times> effect list" where
  "action_body env action d =
     (if action = ''create_todo'' then
        (case d of
           None \<Rightarrow> (Inl (type_error ''priority''), [])
         | Some data \<Rightarrow>
             (let priority = or_else (data_priority data) ''medium'';
                  dueDate = (case data_due_date data of
                               None \<Rightarrow> None
                             | Some s \<Rightarrow> if s = [] then None else Some s)
              in crud_refresh env
                   (CreateTodo (data_title data) (or_else (data_description data) '''') priority
                      dueDate)))
      else if action = ''delete_todo'' then
        (case d of
           None \<Rightarrow> (Inl (type_error ''id''), [])
         | Some data \<Rightarrow> crud_refresh env (DeleteTodo (data_id data)))
      else if action = ''update_todo'' then
        (case d of
           None \<Rightarrow> (Inl (type_error ''id''), [])
         | Some data \<Rightarrow>
             crud_refresh env
               (UpdateTodo (data_id data)
                  \<lparr>patch_title = data_title data, patch_description = data_description data,
                   patch_priority = data_priority data, patch_due_date = data_due_date data\<rparr>))
      else (Inr (), []))"

text \<open>The handler resolves to \<open>undefined\<close>: all it leaves behind are its effects. A thrown
  error is logged by \<open>console.error ('Action failed:', error)\<close>.\<close>

definition handleAction :: "bridge_env \<Rightarrow> string \<Rightarrow> action_data option \<Rightarrow> effect list" where
  "handleAction env action d =
     (case action_body env action d of
        (Inr u, effs) \<Rightarrow> effs
      | (Inl e, effs) \<Rightarrow> effs @ [ConsoleError ''Action failed:'' e])"

section \<open>Example data\<close>

definition tool_call :: "string \<Rightarrow> tool_args \<Rightarrow> function_call" where
  "tool_call name args = \<lparr>fc_name = name, fc_args = Some args\<rparr>"

definition no_args :: tool_args where
  "no_args =
     \<lparr>arg_title = None, arg_description = None, arg_priority = None, arg_due_date = None,
      search_title = None, new_title = None, new_description = None, new_priority = None,
      new_due_date = None\<rparr>"

definition search_for :: "string \<Rightarrow> tool_args" where
  "search_for q = no_args\<lparr>search_title := Some q\<rparr>"

definition buy_milk :: todo where
  "buy_milk =
     \<lparr>todo_id = ''t1'', title = ''Buy Milk'', description = ''two litres'',
      due_date = ''2025-01-01T09:00:00.000Z'', priority = ''medium''\<rparr>"

definition buy_bread :: todo where
  "buy_bread =
     \<lparr>todo_id = ''t2'', title = ''Buy Bread'', description = ''rye'',
      due_date = ''2025-01-02T09:00:00.000Z'', priority = ''low''\<rparr>"



text \<open>A backend on which every request succeeds, and one on which every request is
  answered by an error with the given message.\<close>

definition shop_env :: bridge_env where
  "shop_env =
     \<lparr>todosRef = [buy_milk, buy_bread], api = (\<lambda>c. None), date_now = 1735722000000,
      toISOString = (\<lambda>ms. if ms = 1735808400000 then ''2025-01-02T09:00:00.000Z'' else ''other'')\<rparr>"


definition failing_env :: "string \<Rightarrow> bridge_env" where
  "failing_env m = shop_env\<lparr>api := (\<lambda>c. Some (Error m))\<rparr>"

definition milk_request :: action_data where
  "milk_request =
     \<lparr>data_id = None, data_title = Some ''Buy Milk'', data_description = None,
      data_priority = None, data_due_date = None\<rparr>"

definition blank_bread :: tool_args where
  "blank_bread = (search_for ''bread'')\<lparr>new_title := Some [], new_priority := Some ''high''\<rparr>"

definition delete_request :: action_data where
  "delete_request =
     \<lparr>data_id = Some ''t1'', data_title = None, data_description = None,
      data_priority = None, data_due_date = None\<rparr>"

definition milk_args :: tool_args where
  "milk_args = no_args\<lparr>arg_title := Some ''Buy Milk''\<rparr>"

section \<open>The audio codec\<close>

subsection \<open>Encoding a captured chunk (\<open>onaudioprocess\<close>, \<open>arrayBufferToBase64\<close>)\<close>

text \<open>
  Samples are the finite values of a \<open>Float32Array\<close>, modelled as \<open>real\<close>; the products
  \<open>s * 0x8000\<close> and \<open>s * 0x7fff\<close> of a float32 in \<open>[-1, 1]\<close> are exact in double
  precision, so real arithmetic is what the code computes. \<open>NaN\<close> is outside the model.
\<close>

type_synonym byte = "8 word"

text \<open>\<open>Math.max (-1, Math.min (1, x))\<close>.\<close>

definition clamp_sample :: "real \<Rightarrow> real" where
  "clamp_sample x = max (- 1) (min 1 x)"

text \<open>Storing a number into an \<open>Int16Array\<close>: the fraction is dropped (rounding towards
  zero) and the integer is reduced modulo \<open>2 ^ 16\<close>.\<close>

definition to_integer :: "real \<Rightarrow> int" where
  "to_integer v = (if v < 0 then \<lceil>v\<rceil> else \<lfloor>v\<rfloor>)"

definition to_int16 :: "real \<Rightarrow> 16 word" where
  "to_int16 v = word_of_int (to_integer v)"

text \<open>The body of the conversion loop: \<open>s = Math.max (-1, Math.min (1, inputData[i]))\<close>,
  then \<open>pcmData[i] = s < 0 ? s * 0x8000 : s * 0x7fff\<close>.\<close>

definition scaled :: "real \<Rightarrow> real" where
  "scaled s = (if s < 0 then s * 0x8000 else s * 0x7fff)"

definition pcm_sample :: "real \<Rightarrow> 16 word" where
  "pcm_sample x = (let s = clamp_sample x in to_int16 (scaled s))"

definition pcmData :: "real list \<Rightarrow> 16 word list" where
  "pcmData inputData = map pcm_sample inputData"

text \<open>\<open>pcmData.buffer\<close> read through a \<open>Uint8Array\<close>: two bytes per sample, low byte
  first (the byte order of every platform the browser code runs on).\<close>

definition int16_bytes :: "16 word \<Rightarrow> byte list" where
  "int16_bytes w = [of_nat (unat w mod 256), of_nat (unat w div 256)]"

definition buffer_bytes :: "16 word list \<Rightarrow> byte list" where
  "buffer_bytes ws = concat (map int16_bytes ws)"

text \<open>The loop \<open>binary += String.fromCharCode (bytes[i])\<close>: a string of code units.\<close>

definition binary_string :: "byte list \<Rightarrow> nat list" where
  "binary_string bytes = map unat bytes"

text \<open>\<open>window.btoa\<close>: base64 with the standard alphabet and \<open>=\<close> padding; it raises
  \<open>InvalidCharacterError\<close> when a code unit is above 255.\<close>

definition b64_alphabet :: string where
  "b64_alphabet = ''ABCDEFGHIJKLMNOPQRSTUVWXYZabcdefghijklmnopqrstuvwxyz0123456789+/''"

definition b64_char :: "nat \<Rightarrow> char" where
  "b64_char n = b64_alphabet ! (n mod 64)"

fun b64_encode :: "nat list \<Rightarrow> string" where
  "b64_encode [] = []"
| "b64_encode [a] = [b64_char (a div 4), b64_char (a mod 4 * 16), CHR ''='', CHR ''='']"
| "b64_encode [a, b] =
     [b64_char (a div 4), b64_char (a mod 4 * 16 + b div 16), b64_char (b mod 16 * 4), CHR ''='']"
| "b64_encode (a # b # c # rest) =
     [b64_char (a div 4), b64_char (a mod 4 * 16 + b div 16),
      b64_char (b mod 16 * 4 + c div 64), b64_char (c mod 64)] @ b64_encode rest"

definition btoa :: "nat list \<Rightarrow> js_error + string" where
  "btoa s =
     (if list_all (\<lambda>c. c \<le> 255) s then Inr (b64_encode s)
      else Inl (Error ''InvalidCharacterError''))"

definition arrayBufferToBase64 :: "byte list \<Rightarrow> js_error + string" where
  "arrayBufferToBase64 buffer = btoa (binary_string buffer)"

text \<open>The codec's \<open>encode\<close>: the conversion loop followed by \<open>arrayBufferToBase64\<close>.\<close>

definition encode :: "real list \<Rightarrow> js_error + string" where
  "encode inputData = arrayBufferToBase64 (buffer_bytes (pcmData inputData))"

subsection \<open>Decoding received audio\<close>

text \<open>An \<open>AudioBuffer\<close>: the interleaved samples, the sample rate and the channel count.\<close>

record audio_buffer =
  buffer_samples :: "real list"
  buffer_sampleRate :: nat
  buffer_channels :: nat

text \<open>\<open>AudioBuffer.duration\<close>: frames per channel over the sample rate, in seconds.\<close>

definition duration :: "audio_buffer \<Rightarrow> real" where
  "duration b =
     real (length (buffer_samples b) div buffer_channels b) / real (buffer_sampleRate b)"

text \<open>
  Modelled from the spec: \<open>base64ToUint8Array\<close> and \<open>decodeAudioData\<close> of
  \<open>utils/audioUtils.ts\<close> are imported by the voice assistant but are not among the
  sources. The spec's \<open>decode\<close> reverses the base64 step, reinterprets the bytes as signed
  16-bit little-endian samples, rescales them to the floating range \<open>[-1, 1]\<close> and tags
  the buffer with the given sample rate and channel count; it fails with a
  \<open>DecodeError\<close> when the byte length is not a multiple of 2 bytes per channel. The
  rescaling is taken to be the division by \<open>32768\<close>, which maps the signed 16-bit range
  onto \<open>[-1, 1)\<close>.
\<close>

definition b64_value :: "char \<Rightarrow> nat option" where
  "b64_value c =
     (let i = length (takeWhile (\<lambda>x. x \<noteq> c) b64_alphabet) in if i < 64 then Some i else None)"

fun b64_decode :: "string \<Rightarrow> nat list option" where
  "b64_decode [] = Some []"
| "b64_decode (c0 # c1 # c2 # c3 # rest) =
     (case (b64_value c0, b64_value c1) of
        (Some s0, Some s1) \<Rightarrow>
          (if c2 = CHR ''='' \<and> c3 = CHR ''='' \<and> rest = [] then Some [s0 * 4 + s1 div 16]
           else
             (case b64_value c2 of
                None \<Rightarrow> None
              | Some s2 \<Rightarrow>
                  (if c3 = CHR ''='' \<and> rest = [] then
                     Some [s0 * 4 + s1 div 16, s1 mod 16 * 16 + s2 div 4]
                   else
                     (case (b64_value c3, b64_decode rest) of
                        (Some s3, Some bytes) \<Rightarrow>
                          Some ([s0 * 4 + s1 div 16, s1 mod 16 * 16 + s2 div 4,
                                 s2 mod 4 * 64 + s3] @ bytes)
                      | _ \<Rightarrow> None))))
      | _ \<Rightarrow> None)"
| "b64_decode _ = None"

definition base64ToUint8Array :: "string \<Rightarrow> js_error + byte list" where
  "base64ToUint8Array wire =
     (case b64_decode wire of
        None \<Rightarrow> Inl (Error ''DecodeError'')
      | Some codes \<Rightarrow> Inr (map of_nat codes))"

fun int16_samples :: "byte list \<Rightarrow> 16 word list" where
  "int16_samples (lo # hi # rest) = of_nat (unat lo + 256 * unat hi) # int16_samples rest"
| "int16_samples _ = []"

definition rescale :: "16 word \<Rightarrow> real" where
  "rescale w = real_of_int (sint w) / 32768"

definition decodeAudioData :: "byte list \<Rightarrow> nat \<Rightarrow> nat \<Rightarrow> js_error + audio_buffer" where
  "decodeAudioData bytes sampleRate numChannels =
     (if length bytes mod (2 * numChannels) \<noteq> 0 then Inl (Error ''DecodeError'')
      else Inr \<lparr>buffer_samples = map rescale (int16_samples bytes),
                buffer_sampleRate = sampleRate, buffer_channels = numChannels\<rparr>)"

definition decode :: "string \<Rightarrow> nat \<Rightarrow> nat \<Rightarrow> js_error + audio_buffer" where
  "decode wire sampleRate numChannels =
     (case base64ToUint8Array wire of
        Inl e \<Rightarrow> Inl e
      | Inr bytes \<Rightarrow> decodeAudioData bytes sampleRate numChannels)"

section \<open>The voice session\<close>

subsection \<open>State\<close>

text \<open>
  Browser objects (sockets, audio contexts, live sessions, buffer sources) are referred
  to by handles; what the code asks of them is recorded, in order, in \<open>calls\<close>.
\<close>

datatype frame =
    Auth string
  | TodosUpdate "todo list"
  | Audio string

datatype browser_call =
    SocketSend nat frame
  | SocketClose nat
  | ContextClose nat
  | SessionClose nat
  | SourceStart nat real
  | SourceStop nat
  | ConsoleLog string js_error

text \<open>\<open>WebSocket.readyState\<close>; the socket \<open>ws\<close> captured by the callbacks of a session.\<close>

datatype ready_state = CONNECTING | OPEN | CLOSING | CLOSED

record web_socket =
  ws_id :: nat
  readyState :: ready_state

text \<open>An \<open>AudioBufferSourceNode\<close>: its identity, whether \<open>start\<close> has been called on it,
  the time it was started at and the duration of its buffer.\<close>

record source_node =
  node_id :: nat
  node_started :: bool
  node_when :: real
  node_duration :: real

text \<open>
  The refs and the React state shared by both versions of the component.
  \<open>audioSourcesRef\<close> is a \<open>Set\<close>, kept in insertion order; \<open>created\<close> counts the source
  nodes made so far and names the next one. \<open>volume\<close> is \<open>None\<close> for \<open>NaN\<close>.
\<close>

record voice_state =
  isActive :: bool
  isConnecting :: bool
  volume :: "real option"
  inputContextRef :: "nat option"
  outputContextRef :: "nat option"
  nextStartTimeRef :: real
  audioSourcesRef :: "source_node list"
  created :: nat
  calls :: "browser_call list"

text \<open>The WebSocket version adds \<open>wsRef\<close>; the Gemini version adds \<open>sessionRef\<close>, which
  holds the promise returned by \<open>ai.live.connect\<close> from the moment of the call, pending
  or settled; the state keeps the promise's handle. A promise settles with the live
  session or with an error.\<close>

record ws_state = voice_state +
  wsRef :: "nat option"





text \<open>A handler leaves a state behind, and the error it threw if it threw one.\<close>

type_synonym 'a outcome = "js_error option \<times> 'a"

subsection \<open>Capture: \<open>onaudioprocess\<close> (WebSocket version)\<close>

text \<open>\<open>Math.sqrt (sum / inputData.length) * 100\<close>; \<open>0 / 0\<close> is \<open>NaN\<close>.\<close>

definition rms_volume :: "real list \<Rightarrow> real option" where
  "rms_volume inputData =
     (if inputData = [] then None
      else Some (sqrt (sum_list (map (\<lambda>x. x * x) inputData) / real (length inputData)) * 100))"

text \<open>The guarded send that ends the callback:
  \<open>if (ws.readyState === WebSocket.OPEN) ws.send (JSON.stringify ({ type: 'audio', data }))\<close>.\<close>

definition send_audio ::
  "web_socket \<Rightarrow> string \<Rightarrow> 'a voice_state_scheme \<Rightarrow> 'a voice_state_scheme" where
  "send_audio ws base64Audio st =
     (if readyState ws = OPEN then
        st\<lparr>calls := calls st @ [SocketSend (ws_id ws) (Audio base64Audio)]\<rparr>
      else st)"

definition onaudioprocess ::
  "web_socket \<Rightarrow> real list \<Rightarrow> 'a voice_state_scheme \<Rightarrow> 'a voice_state_scheme outcome" where
  "onaudioprocess ws inputData st =
     (let st1 = st\<lparr>volume := rms_volume inputData\<rparr>
      in case arrayBufferToBase64 (buffer_bytes (pcmData inputData)) of
           Inl e \<Rightarrow> (Some e, st1)
         | Inr base64Audio \<Rightarrow> (None, send_audio ws base64Audio st1))"

subsection \<open>Playback: the \<open>audio\<close> and \<open>interrupted\<close> messages (both versions)\<close>

text \<open>
  The audio branch of \<open>onmessage\<close>. \<open>decoder\<close> stands for
  \<open>decodeAudioData (base64ToUint8Array (data), ctx, 24000, 1)\<close>, \<open>clock\<close> for
  \<open>ctx.currentTime\<close>. The guard is \<open>data && outputContextRef.current\<close>. A decoder that
  throws ends the handler after the first assignment. \<open>source.start\<close> raises a
  \<open>RangeError\<close> for a negative time.
\<close>

definition on_audio ::
  "(string \<Rightarrow> js_error + audio_buffer) \<Rightarrow> real \<Rightarrow> string \<Rightarrow>
   'a voice_state_scheme \<Rightarrow> 'a voice_state_scheme outcome" where
  "on_audio decoder clock data st =
     (if data \<noteq> [] \<and> outputContextRef st \<noteq> None then
        (let st1 = st\<lparr>nextStartTimeRef := max (nextStartTimeRef st) clock\<rparr>
         in case decoder data of
              Inl e \<Rightarrow> (Some e, st1)
            | Inr audioBuffer \<Rightarrow>
                (let source = \<lparr>node_id = created st1, node_started = True,
                                node_when = nextStartTimeRef st1,
                                node_duration = duration audioBuffer\<rparr>;
                     st2 = st1\<lparr>created := created st1 + 1\<rparr>
                 in if nextStartTimeRef st2 < 0 then (Some (Error ''RangeError''), st2)
                    else
                      (None,
                       st2\<lparr>calls := calls st2 @ [SourceStart (node_id source) (nextStartTimeRef st2)],
                           nextStartTimeRef := nextStartTimeRef st2 + duration audioBuffer,
                           audioSourcesRef := audioSourcesRef st2 @ [source]\<rparr>)))
      else (None, st))"

text \<open>The \<open>ended\<close> listener of a source: \<open>audioSourcesRef.current.delete (source)\<close>.\<close>

definition on_ended :: "nat \<Rightarrow> 'a voice_state_scheme \<Rightarrow> 'a voice_state_scheme" where
  "on_ended sid st =
     st\<lparr>audioSourcesRef := filter (\<lambda>s. node_id s \<noteq> sid) (audioSourcesRef st)\<rparr>"

text \<open>\<open>source.stop ()\<close> raises \<open>InvalidStateError\<close> on a source that was never started,
  and is accepted otherwise, also when repeated.\<close>

definition stop :: "source_node \<Rightarrow> js_error + browser_call" where
  "stop source =
     (if node_started source then Inr (SourceStop (node_id source))
      else Inl (Error ''InvalidStateError''))"

text \<open>\<open>forEach ((source) => { try { source.stop (); } catch (e) {} })\<close>.\<close>

fun stop_quietly :: "source_node list \<Rightarrow> browser_call list" where
  "stop_quietly [] = []"
| "stop_quietly (source # rest) =
     (case stop source of Inr c \<Rightarrow> c # stop_quietly rest | Inl e \<Rightarrow> stop_quietly rest)"


text \<open>The \<open>interrupted\<close> branch of \<open>onmessage\<close>.\<close>

definition on_interrupted :: "'a voice_state_scheme \<Rightarrow> 'a voice_state_scheme" where
  "on_interrupted st =
     st\<lparr>calls := calls st @ stop_quietly (audioSourcesRef st),
        audioSourcesRef := [],
        nextStartTimeRef := 0\<rparr>"

text \<open>A run of audio messages, each with the clock reading at its arrival; a handler
  that throws leaves its state to the next one.\<close>

fun enqueue_all ::
  "(string \<Rightarrow> js_error + audio_buffer) \<Rightarrow> (real \<times> string) list \<Rightarrow>
   'a voice_state_scheme \<Rightarrow> 'a voice_state_scheme" where
  "enqueue_all decoder [] st = st"
| "enqueue_all decoder ((clock, data) # rest) st =
     enqueue_all decoder rest (snd (on_audio decoder clock data st))"

text \<open>No two consecutive sources overlap: each starts no earlier than its predecessor's
  start plus its predecessor's duration.\<close>

fun gapless :: "source_node list \<Rightarrow> bool" where
  "gapless (s # t # rest) = (node_when s + node_duration s \<le> node_when t \<and> gapless (t # rest))"
| "gapless _ = True"

subsection \<open>\<open>stopSession\<close>\<close>

text \<open>The part common to both versions: the three state setters, the two audio contexts
  and the playback loop. When a \<open>stop\<close> throws, \<open>clear\<close> is not reached.\<close>

definition reset_flags :: "'a voice_state_scheme \<Rightarrow> 'a voice_state_scheme" where
  "reset_flags st = st\<lparr>isActive := False, isConnecting := False, volume := Some 0\<rparr>"

definition close_input :: "'a voice_state_scheme \<Rightarrow> 'a voice_state_scheme" where
  "close_input st =
     (case inputContextRef st of
        None \<Rightarrow> st
      | Some c \<Rightarrow> st\<lparr>calls := calls st @ [ContextClose c], inputContextRef := None\<rparr>)"

definition close_output :: "'a voice_state_scheme \<Rightarrow> 'a voice_state_scheme" where
  "close_output st =
     (case outputContextRef st of
        None \<Rightarrow> st
      | Some c \<Rightarrow> st\<lparr>calls := calls st @ [ContextClose c], outputContextRef := None\<rparr>)"


text \<open>The WebSocket version: flags, socket, contexts, playback.\<close>

definition close_socket :: "ws_state \<Rightarrow> ws_state" where
  "close_socket st =
     (case wsRef st of
        None \<Rightarrow> st
      | Some w \<Rightarrow> st\<lparr>calls := calls st @ [SocketClose w], wsRef := None\<rparr>)"




text \<open>Every source held in the set has been started: \<open>on_audio\<close> adds a source only after
  \<open>source.start\<close>.\<close>

definition sources_started :: "'a voice_state_scheme \<Rightarrow> bool" where
  "sources_started st = list_all node_started (audioSourcesRef st)"

subsection \<open>Example sessions\<close>

definition started_node :: "nat \<Rightarrow> real \<Rightarrow> real \<Rightarrow> source_node" where
  "started_node i w d = \<lparr>node_id = i, node_started = True, node_when = w, node_duration = d\<rparr>"

definition playing :: ws_state where
  "playing =
     \<lparr>isActive = True, isConnecting = False, volume = Some 3,
      inputContextRef = Some 1, outputContextRef = Some 2, nextStartTimeRef = 5 / 2,
      audioSourcesRef = [started_node 0 1 (1 / 2), started_node 1 (3 / 2) 1],
      created = 2, calls = [], wsRef = Some 7\<rparr>"


text \<open>A set that also holds a source on which \<open>start\<close> was never called.\<close>

definition odd_sources :: "source_node list" where
  "odd_sources =
     [started_node 0 1 (1 / 2),
      \<lparr>node_id = 1, node_started = False, node_when = 0, node_duration = 1\<rparr>,
      started_node 2 (3 / 2) 1]"

text \<open>The sources scheduled so far end by \<open>n\<close>, do not overlap and start in order.\<close>

definition scheduled_before :: "source_node list \<Rightarrow> real \<Rightarrow> bool" where
  "scheduled_before srcs n =
     (gapless srcs \<and> sorted (map node_when srcs)
      \<and> list_all (\<lambda>s. 0 \<le> node_duration s \<and> node_when s + node_duration s \<le> n) srcs)"

definition decoder24 :: "string \<Rightarrow> js_error + audio_buffer" where
  "decoder24 data = decode data 24000 1"

definition idle :: ws_state where
  "idle =
     \<lparr>isActive = True, isConnecting = False, volume = Some 0,
      inputContextRef = Some 1, outputContextRef = Some 2, nextStartTimeRef = 0,
      audioSourcesRef = [], created = 0, calls = [], wsRef = Some 7\<rparr>"

definition silence :: audio_buffer where
  "silence = \<lparr>buffer_samples = [0, 0, 0], buffer_sampleRate = 24000, buffer_channels = 1\<rparr>"

definition burst :: "(real \<times> string) list" where
  "burst = [(1, ''AAAAAAAA''), (1, ''AAAAAAAA''), (5, ''AAAAAAAA'')]"

definition open_socket :: web_socket where
  "open_socket = \<lparr>ws_id = 7, readyState = OPEN\<rparr>"

definition closing_socket :: web_socket where
  "closing_socket = \<lparr>ws_id = 7, readyState = CLOSING\<rparr>"

section \<open>Properties of the tool-call bridge\<close>

subsection \<open>String helpers\<close>









lemma delete_one:
  "search_title args = Some q \<Longrightarrow> find_matches env q = [t] \<Longrightarrow>
   snd (handleToolCall env (tool_call ''delete_todo'' args)) =
     Crud (DeleteTodo (Some (todo_id t))) #
       (if api env (DeleteTodo (Some (todo_id t))) = None then [OnUpdate] else [])"
  by (simp add: handleToolCall_def tool_body_def delete_branch_def tool_call_def crud_then_def
      split: option.splits)

lemma update_one:
  "search_title args = Some q \<Longrightarrow> find_matches env q = [t] \<Longrightarrow>
   snd (handleToolCall env (tool_call ''update_todo'' args)) =
     Crud (UpdateTodo (Some (todo_id t)) (update_payload args t)) #
       (if api env (UpdateTodo (Some (todo_id t)) (update_payload args t)) = None
        then [OnUpdate] else [])"
  by (simp add: handleToolCall_def tool_body_def update_branch_def tool_call_def crud_then_def
      split: option.splits)

lemma matches_milk: "find_matches shop_env ''milk'' = [buy_milk]"
  by code_simp



subsection \<open>Resolving a task by its title\<close>




subsection \<open>Lowering is case folding\<close>



















subsection \<open>The three outcomes of a search\<close>



subsection \<open>Falsy replacement fields\<close>

lemma or_else_simps:
  "or_else None d = d" "or_else (Some []) d = d" "s \<noteq> [] \<Longrightarrow> or_else (Some s) d = s"
  by (simp_all add: or_else_def)

lemma or_else_empty: "or_else a d = [] \<Longrightarrow> d = []"
  by (auto simp: or_else_def split: option.splits if_splits)

lemma payload_blank_title:
  "update_payload (args\<lparr>new_title := Some []\<rparr>) t = update_payload (args\<lparr>new_title := None\<rparr>) t"
  by (simp add: update_payload_def or_else_def)

lemma payload_blank_description:
  "update_payload (args\<lparr>new_description := Some []\<rparr>) t = update_payload (args\<lparr>new_description := None\<rparr>) t"
  by (simp add: update_payload_def or_else_def)

lemma payload_blank_priority:
  "update_payload (args\<lparr>new_priority := Some []\<rparr>) t = update_payload (args\<lparr>new_priority := None\<rparr>) t"
  by (simp add: update_payload_def or_else_def)

lemma payload_blank_due_date:
  "update_payload (args\<lparr>new_due_date := Some []\<rparr>) t = update_payload (args\<lparr>new_due_date := None\<rparr>) t"
  by (simp add: update_payload_def or_else_def)

lemma update_blank_title:
  "handleToolCall env (tool_call ''update_todo'' (args\<lparr>new_title := Some []\<rparr>)) =
   handleToolCall env (tool_call ''update_todo'' (args\<lparr>new_title := None\<rparr>))"
  by (auto simp: handleToolCall_def tool_body_def update_branch_def tool_call_def Let_def
      payload_blank_title payload_blank_description payload_blank_priority
      payload_blank_due_date split: option.splits)

lemma update_blank_description:
  "handleToolCall env (tool_call ''update_todo'' (args\<lparr>new_description := Some []\<rparr>)) =
   handleToolCall env (tool_call ''update_todo'' (args\<lparr>new_description := None\<rparr>))"
  by (auto simp: handleToolCall_def tool_body_def update_branch_def tool_call_def Let_def
      payload_blank_title payload_blank_description payload_blank_priority
      payload_blank_due_date split: option.splits)

lemma update_blank_priority:
  "handleToolCall env (tool_call ''update_todo'' (args\<lparr>new_priority := Some []\<rparr>)) =
   handleToolCall env (tool_call ''update_todo'' (args\<lparr>new_priority := None\<rparr>))"
  by (auto simp: handleToolCall_def tool_body_def update_branch_def tool_call_def Let_def
      payload_blank_title payload_blank_description payload_blank_priority
      payload_blank_due_date split: option.splits)

lemma update_blank_due_date:
  "handleToolCall env (tool_call ''update_todo'' (args\<lparr>new_due_date := Some []\<rparr>)) =
   handleToolCall env (tool_call ''update_todo'' (args\<lparr>new_due_date := None\<rparr>))"
  by (auto simp: handleToolCall_def tool_body_def update_branch_def tool_call_def Let_def
      payload_blank_title payload_blank_description payload_blank_priority
      payload_blank_due_date split: option.splits)

text \<open>
  Claim C10. For an update tool call that resolves to exactly one task, a replacement
  field that is supplied but falsy (the empty string) is treated exactly like a field
  that is not supplied: the payload handed to the CRUD update keeps the task's prior
  value for it. Every field of the payload is therefore present, and it is the empty
  string only when the task's prior value already was; the whole outcome of the call is
  the same for an empty replacement as for a missing one.
\<close>

theorem falsy_replacement_retains_prior:
  assumes q: "search_title args = Some q" and one: "find_matches env q = [t]"
  shows "hd (snd (handleToolCall env (tool_call ''update_todo'' args))) =
           Crud (UpdateTodo (Some (todo_id t)) (update_payload args t))
    \<and> (new_title args \<in> {None, Some []} \<longrightarrow>
         patch_title (update_payload args t) = Some (title t))
    \<and> (new_description args \<in> {None, Some []} \<longrightarrow>
         patch_description (update_payload args t) = Some (description t))
    \<and> (new_priority args \<in> {None, Some []} \<longrightarrow>
         patch_priority (update_payload args t) = Some (priority t))
    \<and> (new_due_date args \<in> {None, Some []} \<longrightarrow>
         patch_due_date (update_payload args t) = Some (due_date t))
    \<and> (patch_title (update_payload args t) = Some [] \<longrightarrow> title t = [])
    \<and> (patch_description (update_payload args t) = Some [] \<longrightarrow> description t = [])
    \<and> (patch_priority (update_payload args t) = Some [] \<longrightarrow> priority t = [])
    \<and> (patch_due_date (update_payload args t) = Some [] \<longrightarrow> due_date t = [])
    \<and> patch_title (update_payload args t) \<noteq> None
    \<and> patch_description (update_payload args t) \<noteq> None
    \<and> patch_priority (update_payload args t) \<noteq> None
    \<and> patch_due_date (update_payload args t) \<noteq> None
    \<and> handleToolCall env (tool_call ''update_todo'' (args\<lparr>new_title := Some []\<rparr>)) =
        handleToolCall env (tool_call ''update_todo'' (args\<lparr>new_title := None\<rparr>))
    \<and> handleToolCall env (tool_call ''update_todo'' (args\<lparr>new_description := Some []\<rparr>)) =
        handleToolCall env (tool_call ''update_todo'' (args\<lparr>new_description := None\<rparr>))
    \<and> handleToolCall env (tool_call ''update_todo'' (args\<lparr>new_priority := Some []\<rparr>)) =
        handleToolCall env (tool_call ''update_todo'' (args\<lparr>new_priority := None\<rparr>))
    \<and> handleToolCall env (tool_call ''update_todo'' (args\<lparr>new_due_date := Some []\<rparr>)) =
        handleToolCall env (tool_call ''update_todo'' (args\<lparr>new_due_date := None\<rparr>))"
proof -
  have call: "hd (snd (handleToolCall env (tool_call ''update_todo'' args))) =
      Crud (UpdateTodo (Some (todo_id t)) (update_payload args t))"
    using update_one [OF q one] by simp
  have kept:
    "new_title args \<in> {None, Some []} \<longrightarrow> patch_title (update_payload args t) = Some (title t)"
    "new_description args \<in> {None, Some []} \<longrightarrow>
       patch_description (update_payload args t) = Some (description t)"
    "new_priority args \<in> {None, Some []} \<longrightarrow>
       patch_priority (update_payload args t) = Some (priority t)"
    "new_due_date args \<in> {None, Some []} \<longrightarrow>
       patch_due_date (update_payload args t) = Some (due_date t)"
    by (auto simp: update_payload_def or_else_simps)
  have nonempty:
    "patch_title (update_payload args t) = Some [] \<longrightarrow> title t = []"
    "patch_description (update_payload args t) = Some [] \<longrightarrow> description t = []"
    "patch_priority (update_payload args t) = Some [] \<longrightarrow> priority t = []"
    "patch_due_date (update_payload args t) = Some [] \<longrightarrow> due_date t = []"
    by (auto simp: update_payload_def dest: or_else_empty)
  have present:
    "patch_title (update_payload args t) \<noteq> None"
    "patch_description (update_payload args t) \<noteq> None"
    "patch_priority (update_payload args t) \<noteq> None"
    "patch_due_date (update_payload args t) \<noteq> None"
    by (simp_all add: update_payload_def)
  show ?thesis
    using call kept nonempty present update_blank_title [of env args]
      update_blank_description [of env args] update_blank_priority [of env args]
      update_blank_due_date [of env args]
    by (intro conjI) blast+
qed

lemma matches_bread: "find_matches shop_env ''bread'' = [buy_bread]"
  by code_simp

text \<open>The update of \<open>Buy Bread\<close> with an empty new title and the new priority \<open>high\<close>.\<close>

theorem falsy_replacement_retains_prior_witness:
  "search_title blank_bread = Some ''bread''
   \<and> find_matches shop_env ''bread'' = [buy_bread]
   \<and> new_title blank_bread = Some []
   \<and> hd (snd (handleToolCall shop_env (tool_call ''update_todo'' blank_bread))) =
       Crud (UpdateTodo (Some ''t2'')
         \<lparr>patch_title = Some ''Buy Bread'', patch_description = Some ''rye'',
          patch_priority = Some ''high'', patch_due_date = Some ''2025-01-02T09:00:00.000Z''\<rparr>)"
proof -
  have s: "search_title blank_bread = Some ''bread''"
    by (simp add: blank_bread_def search_for_def no_args_def)
  have n: "new_title blank_bread = Some []"
    by (simp add: blank_bread_def)
  have p: "update_payload blank_bread buy_bread =
      \<lparr>patch_title = Some ''Buy Bread'', patch_description = Some ''rye'',
       patch_priority = Some ''high'', patch_due_date = Some ''2025-01-02T09:00:00.000Z''\<rparr>"
    by (simp add: update_payload_def blank_bread_def search_for_def no_args_def buy_bread_def
        or_else_def)
  have i: "todo_id buy_bread = ''t2''" by (simp add: buy_bread_def)
  from falsy_replacement_retains_prior [OF s matches_bread]
  have "hd (snd (handleToolCall shop_env (tool_call ''update_todo'' blank_bread))) =
      Crud (UpdateTodo (Some (todo_id buy_bread)) (update_payload blank_bread buy_bread))"
    by blast
  with s n p i matches_bread show ?thesis by simp
qed

subsection \<open>Failures of the CRUD layer\<close>

lemma crud_then_failed:
  "Crud c' \<in> set (snd (crud_then env c r)) \<Longrightarrow> api env c' = Some e \<Longrightarrow>
   crud_then env c r = (Inl e, [Crud c'])"
  by (auto simp: crud_then_def split: option.splits)

lemma create_branch_failed:
  "Crud c \<in> set (snd (create_branch env a)) \<Longrightarrow> api env c = Some e \<Longrightarrow>
   create_branch env a = (Inl e, [Crud c])"
  by (cases a) (auto simp: create_branch_def Let_def dest: crud_then_failed)

lemma delete_branch_failed:
  "Crud c \<in> set (snd (delete_branch env a)) \<Longrightarrow> api env c = Some e \<Longrightarrow>
   delete_branch env a = (Inl e, [Crud c])"
  by (auto simp: delete_branch_def Let_def split: option.splits if_splits
      dest: crud_then_failed)

lemma update_branch_failed:
  "Crud c \<in> set (snd (update_branch env a)) \<Longrightarrow> api env c = Some e \<Longrightarrow>
   update_branch env a = (Inl e, [Crud c])"
  by (auto simp: update_branch_def Let_def split: option.splits if_splits
      dest: crud_then_failed)

lemma tool_body_failed:
  "Crud c \<in> set (snd (tool_body env fc)) \<Longrightarrow> api env c = Some e \<Longrightarrow>
   tool_body env fc = (Inl e, [Crud c])"
  by (auto simp: tool_body_def split: if_splits
      dest: create_branch_failed delete_branch_failed update_branch_failed)

lemma snd_handleToolCall: "snd (handleToolCall env fc) = snd (tool_body env fc)"
  by (auto simp: handleToolCall_def split: prod.splits sum.splits)

lemma handleToolCall_failed:
  assumes "Crud c \<in> set (snd (handleToolCall env fc))" and "api env c = Some (Error m)"
  shows "handleToolCall env fc =
           (Status ''error'' (if m = [] then ''Action failed'' else m), [Crud c])"
proof -
  from assms have "tool_body env fc = (Inl (Error m), [Crud c])"
    by (simp add: snd_handleToolCall tool_body_failed)
  then show ?thesis by (simp add: handleToolCall_def caught_def)
qed

lemma crud_refresh_failed:
  "Crud c' \<in> set (snd (crud_refresh env c)) \<Longrightarrow> api env c' = Some e \<Longrightarrow>
   crud_refresh env c = (Inl e, [Crud c'])"
  by (auto simp: crud_refresh_def split: option.splits)

lemma action_body_failed:
  "Crud c \<in> set (snd (action_body env action d)) \<Longrightarrow> api env c = Some e \<Longrightarrow>
   action_body env action d = (Inl e, [Crud c])"
  by (auto simp: action_body_def Let_def split: if_splits option.splits
      dest: crud_refresh_failed)

lemma action_body_effects:
  "action_body env action d = (r, effs) \<Longrightarrow> ConsoleError s e \<notin> set effs"
  by (auto simp: action_body_def crud_refresh_def Let_def split: if_splits option.splits)

lemma handleAction_failed:
  assumes "Crud c \<in> set (handleAction env action d)" and "api env c = Some e"
  shows "handleAction env action d = [Crud c, ConsoleError ''Action failed:'' e]"
proof -
  obtain r effs where b: "action_body env action d = (r, effs)"
    by (cases "action_body env action d")
  with assms(1) have "Crud c \<in> set effs"
    by (auto simp: handleAction_def split: sum.splits)
  with b assms(2) have "action_body env action d = (Inl e, [Crud c])"
    using action_body_failed [of c env action d e] by simp
  then show ?thesis by (simp add: handleAction_def)
qed

text \<open>
  Claim C5, as the code has it. When the CRUD call made by \<open>handleToolCall\<close> throws an
  error with message \<open>m\<close>, the result has status \<open>error\<close> and carries \<open>m\<close>, or the
  text \<open>Action failed\<close> when \<open>m\<close> is empty; every error thrown inside the handler,
  for any tool name and any arguments, is turned into such a result, so none leaves the
  handler. When the CRUD call made by \<open>handleAction\<close> throws, the error is logged to the
  console and nothing else happens: the handler produces no result and the error does
  not leave it either.
\<close>

theorem crud_failure_is_contained:
  "(\<forall>c m. Crud c \<in> set (snd (handleToolCall env fc)) \<and> api env c = Some (Error m) \<longrightarrow>
       handleToolCall env fc =
         (Status ''error'' (if m = [] then ''Action failed'' else m), [Crud c]))
   \<and> (\<forall>m effs. tool_body env fc = (Inl (Error m), effs) \<longrightarrow>
       handleToolCall env fc =
         (Status ''error'' (if m = [] then ''Action failed'' else m), effs))
   \<and> (\<forall>c e. Crud c \<in> set (handleAction env action d) \<and> api env c = Some e \<longrightarrow>
       handleAction env action d = [Crud c, ConsoleError ''Action failed:'' e])"
proof (intro conjI allI impI)
  fix c m
  assume "Crud c \<in> set (snd (handleToolCall env fc)) \<and> api env c = Some (Error m)"
  then show "handleToolCall env fc =
      (Status ''error'' (if m = [] then ''Action failed'' else m), [Crud c])"
    using handleToolCall_failed by blast
next
  fix m effs
  assume "tool_body env fc = (Inl (Error m), effs)"
  then show "handleToolCall env fc =
      (Status ''error'' (if m = [] then ''Action failed'' else m), effs)"
    by (simp add: handleToolCall_def caught_def)
next
  fix c e
  assume "Crud c \<in> set (handleAction env action d) \<and> api env c = Some e"
  then show "handleAction env action d = [Crud c, ConsoleError ''Action failed:'' e]"
    using handleAction_failed by blast
qed

lemma failed_delete_tool:
  "handleToolCall (failing_env m) (tool_call ''delete_todo'' (search_for ''milk'')) =
     (Status ''error'' (if m = [] then ''Action failed'' else m), [Crud (DeleteTodo (Some ''t1''))])"
proof -
  have "find_matches (failing_env m) ''milk'' = find_matches shop_env ''milk''"
    by (simp add: find_matches_def failing_env_def)
  then have one: "find_matches (failing_env m) ''milk'' = [buy_milk]"
    by (simp add: matches_milk)
  have s: "search_title (search_for ''milk'') = Some ''milk''"
    by (simp add: search_for_def no_args_def)
  have a: "api (failing_env m) (DeleteTodo (Some ''t1'')) = Some (Error m)"
    by (simp add: failing_env_def)
  have "Crud (DeleteTodo (Some ''t1''))
      \<in> set (snd (handleToolCall (failing_env m) (tool_call ''delete_todo'' (search_for ''milk''))))"
    using delete_one [OF s one] by (simp add: buy_milk_def)
  then show ?thesis using a by (rule handleToolCall_failed)
qed

lemma failed_delete_action:
  "handleAction (failing_env m) ''delete_todo'' (Some delete_request) =
     [Crud (DeleteTodo (Some ''t1'')), ConsoleError ''Action failed:'' (Error m)]"
  by (simp add: handleAction_def action_body_def crud_refresh_def failing_env_def
      delete_request_def)

theorem crud_failure_is_contained_witness:
  "Crud (DeleteTodo (Some ''t1''))
     \<in> set (snd (handleToolCall (failing_env ''Server down'')
          (tool_call ''delete_todo'' (search_for ''milk''))))
   \<and> api (failing_env ''Server down'') (DeleteTodo (Some ''t1'')) = Some (Error ''Server down'')
   \<and> handleToolCall (failing_env ''Server down'') (tool_call ''delete_todo'' (search_for ''milk'')) =
       (Status ''error'' ''Server down'', [Crud (DeleteTodo (Some ''t1''))])
   \<and> tool_body (failing_env ''Server down'') (tool_call ''delete_todo'' (search_for ''milk'')) =
       (Inl (Error ''Server down''), [Crud (DeleteTodo (Some ''t1''))])
   \<and> Crud (DeleteTodo (Some ''t1''))
       \<in> set (handleAction (failing_env ''Server down'') ''delete_todo'' (Some delete_request))
   \<and> handleAction (failing_env ''Server down'') ''delete_todo'' (Some delete_request) =
       [Crud (DeleteTodo (Some ''t1'')), ConsoleError ''Action failed:'' (Error ''Server down'')]"
proof -
  let ?env = "failing_env ''Server down''"
  let ?fc = "tool_call ''delete_todo'' (search_for ''milk'')"
  let ?c = "DeleteTodo (Some ''t1'')"
  have a: "api ?env ?c = Some (Error ''Server down'')"
    by (simp add: failing_env_def)
  have t: "Crud ?c \<in> set (snd (handleToolCall ?env ?fc))"
    by (simp add: failed_delete_tool)
  have b: "tool_body ?env ?fc = (Inl (Error ''Server down''), [Crud ?c])"
    using t a by (simp add: snd_handleToolCall tool_body_failed)
  have h: "Crud ?c \<in> set (handleAction ?env ''delete_todo'' (Some delete_request))"
    by (simp add: failed_delete_action)
  note inst = crud_failure_is_contained
    [where env = ?env and fc = ?fc and action = "''delete_todo''" and d = "Some delete_request"]
  from inst t a have r1: "handleToolCall ?env ?fc =
      (Status ''error'' (if ''Server down'' = [] then ''Action failed'' else ''Server down''),
       [Crud ?c])"
    by blast
  from inst h a have r2: "handleAction ?env ''delete_todo'' (Some delete_request) =
      [Crud ?c, ConsoleError ''Action failed:'' (Error ''Server down'')]"
    by blast
  from r1 have r1': "handleToolCall ?env ?fc = (Status ''error'' ''Server down'', [Crud ?c])"
    by simp
  show ?thesis using a t b h r1' r2 by (intro conjI)
qed

text \<open>
  The claim as first stated fails on two inputs. A failed delete through
  \<open>handleAction\<close> leaves only the request and a console log, and no result of status
  \<open>error\<close>; and a failure whose message is empty reaches the assistant through
  \<open>handleToolCall\<close> as \<open>Action failed\<close>, which is not the underlying message.
\<close>

theorem crud_failure_counterexample:
  "handleAction (failing_env ''Server down'') ''delete_todo'' (Some delete_request) =
     [Crud (DeleteTodo (Some ''t1'')), ConsoleError ''Action failed:'' (Error ''Server down'')]
   \<and> handleToolCall (failing_env '''') (tool_call ''delete_todo'' (search_for ''milk'')) =
       (Status ''error'' ''Action failed'', [Crud (DeleteTodo (Some ''t1''))])"
  using failed_delete_action [of "''Server down''"] failed_delete_tool [of "''''"] by simp

subsection \<open>Defaults of a created task\<close>

lemma create_tool_effects:
  "snd (handleToolCall env (tool_call ''create_todo'' args)) =
     (let c = CreateTodo (arg_title args) (or_else (arg_description args) [])
                (or_else (arg_priority args) ''medium'')
                (Some (or_else (arg_due_date args) (toISOString env (date_now env + 86400000))))
      in Crud c # (if api env c = None then [OnUpdate] else []))"
  by (auto simp: handleToolCall_def tool_body_def create_branch_def tool_call_def crud_then_def
      Let_def split: option.splits)

lemma create_tool_result:
  \<open>api env (CreateTodo (arg_title args) (or_else (arg_description args) [])
        (or_else (arg_priority args) ''medium'')
        (Some (or_else (arg_due_date args) (toISOString env (date_now env + 86400000))))) = None
   \<Longrightarrow> fst (handleToolCall env (tool_call ''create_todo'' args)) =
         Status ''success'' (''Created task "'' @ template (arg_title args) @ ''"'')\<close>
  by (auto simp: handleToolCall_def tool_body_def create_branch_def tool_call_def crud_then_def
      Let_def split: option.splits)

lemma create_action_effects:
  "handleAction env ''create_todo'' (Some data) =
     (let c = CreateTodo (data_title data) (or_else (data_description data) [])
                (or_else (data_priority data) ''medium'')
                (if data_due_date data \<in> {None, Some []} then None else data_due_date data)
      in Crud c # (case api env c of None \<Rightarrow> [OnUpdate]
                   | Some e \<Rightarrow> [ConsoleError ''Action failed:'' e]))"
  by (auto simp: handleAction_def action_body_def crud_refresh_def Let_def split: option.splits)

text \<open>
  Claim C4, as the code has it. \<open>handleToolCall\<close> always issues the create request; a
  missing priority is sent as \<open>medium\<close> and a missing due date as the ISO timestamp of
  the current time plus 86400000 ms (24 hours); when the request succeeds and a title
  was given, the result is \<open>success\<close> with the message \<open>Created task "title"\<close>; the tool
  definition declares \<open>title\<close>, and nothing else, as required. \<open>handleAction\<close> also
  sends a missing priority as \<open>medium\<close>, but it sends a missing due date as \<open>null\<close>,
  and it has no result message.
\<close>

theorem create_defaults:
  \<open>snd (handleToolCall env (tool_call ''create_todo'' args)) \<noteq> []
   \<and> (arg_priority args = None \<longrightarrow>
        hd (snd (handleToolCall env (tool_call ''create_todo'' args))) =
          Crud (CreateTodo (arg_title args) (or_else (arg_description args) []) ''medium''
            (Some (or_else (arg_due_date args) (toISOString env (date_now env + 86400000))))))
   \<and> (arg_due_date args = None \<longrightarrow>
        hd (snd (handleToolCall env (tool_call ''create_todo'' args))) =
          Crud (CreateTodo (arg_title args) (or_else (arg_description args) [])
            (or_else (arg_priority args) ''medium'')
            (Some (toISOString env (date_now env + 86400000)))))
   \<and> (\<forall>t c. arg_title args = Some t
          \<and> hd (snd (handleToolCall env (tool_call ''create_todo'' args))) = Crud c
          \<and> api env c = None \<longrightarrow>
        fst (handleToolCall env (tool_call ''create_todo'' args)) =
          Status ''success'' (''Created task "'' @ t @ ''"''))
   \<and> map tool_required (filter (\<lambda>d. tool_name d = ''create_todo'') toolDefinitions) =
        [[''title'']]
   \<and> handleAction env ''create_todo'' (Some data) \<noteq> []
   \<and> (data_priority data = None \<longrightarrow>
        hd (handleAction env ''create_todo'' (Some data)) =
          Crud (CreateTodo (data_title data) (or_else (data_description data) []) ''medium''
            (if data_due_date data = Some [] then None else data_due_date data)))
   \<and> (data_due_date data = None \<longrightarrow>
        hd (handleAction env ''create_todo'' (Some data)) =
          Crud (CreateTodo (data_title data) (or_else (data_description data) [])
            (or_else (data_priority data) ''medium'') None))\<close>
proof -
  have t1: "snd (handleToolCall env (tool_call ''create_todo'' args)) \<noteq> []"
    by (simp add: create_tool_effects Let_def)
  have t2: "arg_priority args = None \<longrightarrow>
        hd (snd (handleToolCall env (tool_call ''create_todo'' args))) =
          Crud (CreateTodo (arg_title args) (or_else (arg_description args) []) ''medium''
            (Some (or_else (arg_due_date args) (toISOString env (date_now env + 86400000)))))"
    by (simp add: create_tool_effects Let_def or_else_simps)
  have t3: "arg_due_date args = None \<longrightarrow>
        hd (snd (handleToolCall env (tool_call ''create_todo'' args))) =
          Crud (CreateTodo (arg_title args) (or_else (arg_description args) [])
            (or_else (arg_priority args) ''medium'')
            (Some (toISOString env (date_now env + 86400000))))"
    by (simp add: create_tool_effects Let_def or_else_simps)
  have t4: \<open>\<forall>t c. arg_title args = Some t
          \<and> hd (snd (handleToolCall env (tool_call ''create_todo'' args))) = Crud c
          \<and> api env c = None \<longrightarrow>
        fst (handleToolCall env (tool_call ''create_todo'' args)) =
          Status ''success'' (''Created task "'' @ t @ ''"'')\<close>
  proof (intro allI impI)
    fix t c
    assume h: "arg_title args = Some t
          \<and> hd (snd (handleToolCall env (tool_call ''create_todo'' args))) = Crud c
          \<and> api env c = None"
    then have "c = CreateTodo (arg_title args) (or_else (arg_description args) [])
        (or_else (arg_priority args) ''medium'')
        (Some (or_else (arg_due_date args) (toISOString env (date_now env + 86400000))))"
      by (auto simp: create_tool_effects Let_def)
    with h have "api env (CreateTodo (arg_title args) (or_else (arg_description args) [])
        (or_else (arg_priority args) ''medium'')
        (Some (or_else (arg_due_date args) (toISOString env (date_now env + 86400000))))) = None"
      by blast
    from create_tool_result [OF this] h
    show \<open>fst (handleToolCall env (tool_call ''create_todo'' args)) =
          Status ''success'' (''Created task "'' @ t @ ''"'')\<close>
      by (simp add: template_def)
  qed
  have t5: "map tool_required (filter (\<lambda>d. tool_name d = ''create_todo'') toolDefinitions) =
        [[''title'']]"
    by (simp add: toolDefinitions_def)
  have a1: "handleAction env ''create_todo'' (Some data) \<noteq> []"
    by (simp add: create_action_effects Let_def)
  have a2: "data_priority data = None \<longrightarrow>
        hd (handleAction env ''create_todo'' (Some data)) =
          Crud (CreateTodo (data_title data) (or_else (data_description data) []) ''medium''
            (if data_due_date data = Some [] then None else data_due_date data))"
    by (auto simp: create_action_effects Let_def or_else_simps)
  have a3: "data_due_date data = None \<longrightarrow>
        hd (handleAction env ''create_todo'' (Some data)) =
          Crud (CreateTodo (data_title data) (or_else (data_description data) [])
            (or_else (data_priority data) ''medium'') None)"
    by (simp add: create_action_effects Let_def)
  show ?thesis using t1 t2 t3 t4 t5 a1 a2 a3 by (intro conjI)
qed

theorem create_defaults_witness:
  \<open>arg_priority milk_args = None \<and> arg_due_date milk_args = None
   \<and> arg_title milk_args = Some ''Buy Milk''
   \<and> hd (snd (handleToolCall shop_env (tool_call ''create_todo'' milk_args))) =
       Crud (CreateTodo (Some ''Buy Milk'') [] ''medium'' (Some ''2025-01-02T09:00:00.000Z''))
   \<and> api shop_env (CreateTodo (Some ''Buy Milk'') [] ''medium''
         (Some ''2025-01-02T09:00:00.000Z'')) = None
   \<and> fst (handleToolCall shop_env (tool_call ''create_todo'' milk_args)) =
       Status ''success'' ''Created task "Buy Milk"''
   \<and> data_priority milk_request = None \<and> data_due_date milk_request = None
   \<and> hd (handleAction shop_env ''create_todo'' (Some milk_request)) =
       Crud (CreateTodo (Some ''Buy Milk'') [] ''medium'' None)\<close>
proof -
  have p: "arg_priority milk_args = None" "arg_due_date milk_args = None"
    "arg_title milk_args = Some ''Buy Milk''" "arg_description milk_args = None"
    by (simp_all add: milk_args_def no_args_def)
  have d: "data_priority milk_request = None" "data_due_date milk_request = None"
    "data_title milk_request = Some ''Buy Milk''" "data_description milk_request = None"
    by (simp_all add: milk_request_def)
  have iso: "toISOString shop_env (date_now shop_env + 86400000) = ''2025-01-02T09:00:00.000Z''"
    by (simp add: shop_env_def)
  have ok: "\<And>c. api shop_env c = None" by (simp add: shop_env_def)
  note inst = create_defaults [where env = shop_env and args = milk_args and data = milk_request]
  from inst p(2) have "hd (snd (handleToolCall shop_env (tool_call ''create_todo'' milk_args))) =
      Crud (CreateTodo (arg_title milk_args) (or_else (arg_description milk_args) [])
            (or_else (arg_priority milk_args) ''medium'')
            (Some (toISOString shop_env (date_now shop_env + 86400000))))"
    by blast
  then have c: "hd (snd (handleToolCall shop_env (tool_call ''create_todo'' milk_args))) =
       Crud (CreateTodo (Some ''Buy Milk'') [] ''medium'' (Some ''2025-01-02T09:00:00.000Z''))"
    by (simp add: p iso or_else_simps)
  from inst p(3) c ok have r: \<open>fst (handleToolCall shop_env (tool_call ''create_todo'' milk_args)) =
       Status ''success'' (''Created task "'' @ ''Buy Milk'' @ ''"'')\<close>
    by blast
  from inst d(2) have "hd (handleAction shop_env ''create_todo'' (Some milk_request)) =
          Crud (CreateTodo (data_title milk_request) (or_else (data_description milk_request) [])
            (or_else (data_priority milk_request) ''medium'') None)"
    by blast
  then have a: "hd (handleAction shop_env ''create_todo'' (Some milk_request)) =
       Crud (CreateTodo (Some ''Buy Milk'') [] ''medium'' None)"
    by (simp add: d or_else_simps)
  show ?thesis using p d c ok r a by simp
qed

text \<open>
  The claim as first stated fails for \<open>handleAction\<close>: a create action without a due
  date reaches the CRUD layer with the due date \<open>null\<close>, not with the timestamp of the
  current time plus 24 hours, and the handler's whole output is that request and the
  refresh.
\<close>

theorem create_defaults_counterexample:
  "data_due_date milk_request = None
   \<and> handleAction shop_env ''create_todo'' (Some milk_request) =
       [Crud (CreateTodo (Some ''Buy Milk'') [] ''medium'' None), OnUpdate]
   \<and> toISOString shop_env (date_now shop_env + 86400000) = ''2025-01-02T09:00:00.000Z''"
  by (simp add: create_action_effects milk_request_def shop_env_def or_else_def)

section \<open>Properties of the voice session\<close>

subsection \<open>The encoder never throws\<close>

lemma binary_string_bytes: "list_all (\<lambda>c. c \<le> 255) (binary_string bytes)"
proof -
  have "unat b \<le> 255" for b :: byte
    using unsigned_less [of b, where ?'a = nat] by simp
  then show ?thesis by (simp add: binary_string_def list_all_iff)
qed

lemma arrayBufferToBase64_ok:
  "arrayBufferToBase64 buffer = Inr (b64_encode (binary_string buffer))"
  by (simp add: arrayBufferToBase64_def btoa_def binary_string_bytes)

lemma encode_ok:
  "encode inputData = Inr (b64_encode (binary_string (buffer_bytes (pcmData inputData))))"
  by (simp add: encode_def arrayBufferToBase64_ok)

lemma pcm_half: "pcmData [1 / 2, - (1 / 2)] = [16383, 49152]"
  by (simp add: pcmData_def pcm_sample_def scaled_def clamp_sample_def to_int16_def to_integer_def)

lemma bytes_half: "buffer_bytes [16383, 49152] = [255, 63, 0, 192]"
  by (simp add: buffer_bytes_def int16_bytes_def)

lemma b64_half: "b64_encode (binary_string [255, 63, 0, 192]) = ''/z8AwA==''"
  by (simp add: binary_string_def b64_char_def b64_alphabet_def)

lemma encode_half: "encode [1 / 2, - (1 / 2)] = Inr ''/z8AwA==''"
  by (simp only: encode_ok pcm_half bytes_half b64_half)

subsection \<open>Interruption\<close>

lemma stop_quietly_filter:
  "stop_quietly srcs = map (\<lambda>s. SourceStop (node_id s)) (filter node_started srcs)"
  by (induction srcs) (simp_all add: stop_def)


text \<open>
  Claim C8. From every state of the playback pipeline, whatever the in-flight sources
  and the value of \<open>nextStartTimeRef\<close>, the \<open>interrupted\<close> branch calls \<open>stop\<close> on every
  in-flight source (once each, in the order of the set), leaves the set empty and resets
  \<open>nextStartTimeRef\<close> to zero; it touches nothing else. It has no error outcome: a
  \<open>stop\<close> that throws is swallowed by the \<open>try\<close> around it and the loop goes on.
\<close>

theorem interrupt_clears_playback:
  "audioSourcesRef (on_interrupted st) = []
   \<and> nextStartTimeRef (on_interrupted st) = 0
   \<and> calls (on_interrupted st) =
       calls st @ map (\<lambda>s. SourceStop (node_id s)) (filter node_started (audioSourcesRef st))
   \<and> (\<forall>s \<in> set (audioSourcesRef st).
         node_started s \<longrightarrow> SourceStop (node_id s) \<in> set (calls (on_interrupted st)))
   \<and> on_interrupted st =
       st\<lparr>calls := calls (on_interrupted st), audioSourcesRef := [], nextStartTimeRef := 0\<rparr>"
  by (auto simp: on_interrupted_def stop_quietly_filter)

theorem interrupt_clears_playback_witness:
  "started_node 2 (3 / 2) 1 \<in> set (audioSourcesRef (playing\<lparr>audioSourcesRef := odd_sources\<rparr>))
   \<and> node_started (started_node 2 (3 / 2) 1)
   \<and> SourceStop 2 \<in> set (calls (on_interrupted (playing\<lparr>audioSourcesRef := odd_sources\<rparr>)))
   \<and> calls (on_interrupted (playing\<lparr>audioSourcesRef := odd_sources\<rparr>)) = [SourceStop 0, SourceStop 2]
   \<and> audioSourcesRef (on_interrupted (playing\<lparr>audioSourcesRef := odd_sources\<rparr>)) = []
   \<and> nextStartTimeRef (on_interrupted (playing\<lparr>audioSourcesRef := odd_sources\<rparr>)) = 0"
proof -
  let ?st = "playing\<lparr>audioSourcesRef := odd_sources\<rparr>"
  have m: "started_node 2 (3 / 2) 1 \<in> set (audioSourcesRef ?st)"
    by (simp add: odd_sources_def)
  have s: "node_started (started_node 2 (3 / 2) 1)" "node_id (started_node 2 (3 / 2) 1) = 2"
    by (simp_all add: started_node_def)
  have c: "calls ?st = []" by (simp add: playing_def)
  have f: "map (\<lambda>s. SourceStop (node_id s)) (filter node_started (audioSourcesRef ?st)) =
      [SourceStop 0, SourceStop 2]"
    by (simp add: odd_sources_def started_node_def)
  note inst = interrupt_clears_playback [of ?st]
  from inst m s have "SourceStop 2 \<in> set (calls (on_interrupted ?st))" by fastforce
  moreover from inst c f have "calls (on_interrupted ?st) = [SourceStop 0, SourceStop 2]"
    by simp
  moreover from inst have "audioSourcesRef (on_interrupted ?st) = []"
    "nextStartTimeRef (on_interrupted ?st) = 0" by blast+
  ultimately show ?thesis using m s by blast
qed

subsection \<open>Stopping the session\<close>


lemma sources_started_prepare [simp]:
  "sources_started (reset_flags st) = sources_started st"
  "sources_started (close_input st) = sources_started st"
  "sources_started (close_output st) = sources_started st"
  by (simp_all add: sources_started_def reset_flags_def close_input_def close_output_def
      split: option.splits)

lemma sources_started_close_socket [simp]:
  "sources_started (close_socket st) = sources_started st"
  by (simp add: sources_started_def close_socket_def split: option.splits)





lemma sources_started_on_audio:
  "sources_started st \<Longrightarrow> sources_started (snd (on_audio decoder clock data st))"
  by (auto simp: on_audio_def sources_started_def Let_def split: sum.splits)

lemma sources_started_on_ended: "sources_started st \<Longrightarrow> sources_started (on_ended sid st)"
  by (induction "audioSourcesRef st") (auto simp: on_ended_def sources_started_def list_all_iff)

lemma sources_started_on_interrupted: "sources_started (on_interrupted st)"
  by (simp add: on_interrupted_def sources_started_def)




subsection \<open>Scheduling of playback\<close>

lemma duration_nonneg: "0 \<le> duration b"
  by (simp add: duration_def)

lemma gapless_snoc:
  "gapless srcs \<Longrightarrow> list_all (\<lambda>s. node_when s + node_duration s \<le> node_when t) srcs \<Longrightarrow>
   gapless (srcs @ [t])"
  by (induction srcs rule: gapless.induct) simp_all

lemma scheduled_before_mono:
  "scheduled_before srcs n \<Longrightarrow> n \<le> n' \<Longrightarrow> scheduled_before srcs n'"
  by (auto simp: scheduled_before_def list_all_iff)

lemma scheduled_before_snoc:
  assumes "scheduled_before srcs n" and "n \<le> node_when t" and "0 \<le> node_duration t"
  shows "scheduled_before (srcs @ [t]) (node_when t + node_duration t)"
proof -
  from assms have ends: "list_all (\<lambda>s. node_when s + node_duration s \<le> node_when t) srcs"
    by (auto simp: scheduled_before_def list_all_iff)
  with assms have "gapless (srcs @ [t])"
    by (simp add: scheduled_before_def gapless_snoc)
  moreover from assms ends have "sorted (map node_when (srcs @ [t]))"
    by (fastforce simp: scheduled_before_def sorted_append list_all_iff)
  moreover from assms ends
  have "list_all (\<lambda>s. 0 \<le> node_duration s
      \<and> node_when s + node_duration s \<le> node_when t + node_duration t) (srcs @ [t])"
    by (fastforce simp: scheduled_before_def list_all_iff)
  ultimately show ?thesis by (simp add: scheduled_before_def)
qed

lemma on_audio_scheduled:
  assumes "audioSourcesRef st = old @ new" and "scheduled_before new (nextStartTimeRef st)"
  shows "\<exists>new'. audioSourcesRef (snd (on_audio decoder clock data st)) = old @ new'
           \<and> scheduled_before new' (nextStartTimeRef (snd (on_audio decoder clock data st)))"
proof (cases "data \<noteq> [] \<and> outputContextRef st \<noteq> None")
  case False
  with assms show ?thesis by (auto simp: on_audio_def)
next
  case guard: True
  let ?n = "max (nextStartTimeRef st) clock"
  have up: "scheduled_before new ?n"
    using assms(2) by (rule scheduled_before_mono) simp
  show ?thesis
  proof (cases "decoder data")
    case (Inl e)
    with guard assms up show ?thesis by (simp add: on_audio_def)
  next
    case (Inr b)
    show ?thesis
    proof (cases "?n < 0")
      case True
      with guard Inr assms up show ?thesis by (simp add: on_audio_def Let_def)
    next
      case False
      let ?t = "\<lparr>node_id = created st, node_started = True, node_when = ?n,
                 node_duration = duration b\<rparr>"
      have "scheduled_before (new @ [?t]) (node_when ?t + node_duration ?t)"
        using up by (rule scheduled_before_snoc) (simp_all add: duration_nonneg)
      with guard Inr False assms(1) up show ?thesis
        by (auto simp: on_audio_def Let_def)
    qed
  qed
qed

lemma enqueue_all_scheduled:
  "audioSourcesRef st = old @ new \<Longrightarrow> scheduled_before new (nextStartTimeRef st) \<Longrightarrow>
   \<exists>new'. audioSourcesRef (enqueue_all decoder events st) = old @ new'
     \<and> scheduled_before new' (nextStartTimeRef (enqueue_all decoder events st))"
proof (induction events arbitrary: st new)
  case Nil
  then show ?case by simp
next
  case (Cons ev events)
  obtain clock data where ev: "ev = (clock, data)" by (cases ev)
  from on_audio_scheduled [OF Cons.prems, of decoder clock data]
  obtain new' where
    "audioSourcesRef (snd (on_audio decoder clock data st)) = old @ new'"
    "scheduled_before new' (nextStartTimeRef (snd (on_audio decoder clock data st)))"
    by blast
  from Cons.IH [OF this] show ?case by (simp add: ev)
qed

lemma on_audio_scheduled_at:
  assumes "data \<noteq> []" and "outputContextRef st \<noteq> None" and "decoder data = Inr b"
    and "0 \<le> clock"
  shows "on_audio decoder clock data st =
     (None,
      st\<lparr>nextStartTimeRef := max (nextStartTimeRef st) clock + duration b,
         created := created st + 1,
         calls := calls st @ [SourceStart (created st) (max (nextStartTimeRef st) clock)],
         audioSourcesRef := audioSourcesRef st
           @ [\<lparr>node_id = created st, node_started = True,
               node_when = max (nextStartTimeRef st) clock, node_duration = duration b\<rparr>]\<rparr>)"
  using assms by (simp add: on_audio_def Let_def)

lemma on_audio_output [simp]:
  "outputContextRef (snd (on_audio decoder clock data st)) = outputContextRef st"
  by (auto simp: on_audio_def Let_def split: sum.splits)

lemma enqueue_all_count:
  "outputContextRef st \<noteq> None \<Longrightarrow>
   list_all (\<lambda>(clock, data). 0 \<le> clock \<and> data \<noteq> [] \<and> \<not> isl (decoder data)) events \<Longrightarrow>
   length (audioSourcesRef (enqueue_all decoder events st)) =
     length (audioSourcesRef st) + length events"
proof (induction events arbitrary: st)
  case Nil
  then show ?case by simp
next
  case (Cons ev events)
  obtain clock data where ev: "ev = (clock, data)" by (cases ev)
  with Cons.prems obtain b where b: "decoder data = Inr b"
    by (cases "decoder data") auto
  from Cons.prems ev have g: "data \<noteq> []" "0 \<le> clock" by auto
  have step: "length (audioSourcesRef (snd (on_audio decoder clock data st))) =
      length (audioSourcesRef st) + 1"
    using g b Cons.prems(1) by (simp add: on_audio_scheduled_at)
  have "length (audioSourcesRef (enqueue_all decoder events (snd (on_audio decoder clock data st)))) =
      length (audioSourcesRef (snd (on_audio decoder clock data st))) + length events"
    using Cons.prems by (intro Cons.IH) (simp_all add: ev)
  with step show ?case by (simp add: ev)
qed

text \<open>
  Claim C2. An audio message that passes the guard and decodes is scheduled to start at
  \<open>max (nextStartTimeRef, currentTime)\<close>, and \<open>nextStartTimeRef\<close> becomes that start plus
  the buffer's duration. For every run of audio messages, with any clock readings, the
  sources the run adds to the set start in non-decreasing order and each starts no
  earlier than the start of the one before it plus that one's duration; when every
  message passes the guard and decodes, each of them is scheduled.
\<close>

theorem playback_is_gapless:
  "(data \<noteq> [] \<and> outputContextRef st \<noteq> None \<and> decoder data = Inr b \<and> 0 \<le> clock \<longrightarrow>
      on_audio decoder clock data st =
        (None,
         st\<lparr>nextStartTimeRef := max (nextStartTimeRef st) clock + duration b,
            created := created st + 1,
            calls := calls st @ [SourceStart (created st) (max (nextStartTimeRef st) clock)],
            audioSourcesRef := audioSourcesRef st
              @ [\<lparr>node_id = created st, node_started = True,
                  node_when = max (nextStartTimeRef st) clock, node_duration = duration b\<rparr>]\<rparr>))
   \<and> take (length (audioSourcesRef st)) (audioSourcesRef (enqueue_all decoder events st)) =
       audioSourcesRef st
   \<and> gapless (drop (length (audioSourcesRef st)) (audioSourcesRef (enqueue_all decoder events st)))
   \<and> sorted (map node_when
        (drop (length (audioSourcesRef st)) (audioSourcesRef (enqueue_all decoder events st))))
   \<and> (outputContextRef st \<noteq> None
        \<and> list_all (\<lambda>(clock, data). 0 \<le> clock \<and> data \<noteq> [] \<and> \<not> isl (decoder data)) events \<longrightarrow>
      length (audioSourcesRef (enqueue_all decoder events st)) =
        length (audioSourcesRef st) + length events)"
proof -
  have "scheduled_before [] (nextStartTimeRef st)"
    by (simp add: scheduled_before_def)
  from enqueue_all_scheduled [of st "audioSourcesRef st" "[]" decoder events, OF _ this]
  obtain new where new: "audioSourcesRef (enqueue_all decoder events st) = audioSourcesRef st @ new"
    "scheduled_before new (nextStartTimeRef (enqueue_all decoder events st))"
    by auto
  then have "gapless new" "sorted (map node_when new)"
    by (simp_all add: scheduled_before_def)
  with new(1) show ?thesis
    using on_audio_scheduled_at [of data st decoder b clock]
      enqueue_all_count [of st decoder events]
    by simp
qed

lemma b64_value_A: "b64_value CHR ''A'' = Some 0"
  by (simp add: b64_value_def b64_alphabet_def)

lemma decode_silence: "decoder24 ''AAAAAAAA'' = Inr silence"
  by (simp add: decoder24_def decode_def base64ToUint8Array_def decodeAudioData_def
      b64_value_A rescale_def silence_def)

lemma duration_silence: "duration silence = 1 / 8000"
  by (simp add: duration_def silence_def)

lemma burst_starts:
  "map node_when (audioSourcesRef (enqueue_all decoder24 burst idle)) = [1, 8001 / 8000, 5]"
  by (simp add: burst_def on_audio_def decode_silence duration_silence idle_def Let_def)

theorem playback_is_gapless_witness:
  "''AAAAAAAA'' \<noteq> [] \<and> outputContextRef idle \<noteq> None \<and> decoder24 ''AAAAAAAA'' = Inr silence
   \<and> (0 :: real) \<le> 1
   \<and> list_all (\<lambda>(clock, data). 0 \<le> clock \<and> data \<noteq> [] \<and> \<not> isl (decoder24 data)) burst
   \<and> nextStartTimeRef (snd (on_audio decoder24 1 ''AAAAAAAA'' idle)) = 8001 / 8000
   \<and> length (audioSourcesRef (enqueue_all decoder24 burst idle)) = 3
   \<and> map node_when (audioSourcesRef (enqueue_all decoder24 burst idle)) = [1, 8001 / 8000, 5]
   \<and> gapless (audioSourcesRef (enqueue_all decoder24 burst idle))
   \<and> sorted (map node_when (audioSourcesRef (enqueue_all decoder24 burst idle)))"
proof -
  note d = decode_silence
  have o: "outputContextRef idle \<noteq> None" "audioSourcesRef idle = []" "nextStartTimeRef idle = 0"
    by (simp_all add: idle_def)
  have l: "list_all (\<lambda>(clock, data). 0 \<le> clock \<and> data \<noteq> [] \<and> \<not> isl (decoder24 data)) burst"
    by (simp add: burst_def d)
  note dur = duration_silence
  note inst = playback_is_gapless
    [where data = "''AAAAAAAA''" and st = idle and decoder = decoder24 and b = silence
       and clock = 1 and events = burst]
  from inst d o have "on_audio decoder24 1 ''AAAAAAAA'' idle =
        (None,
         idle\<lparr>nextStartTimeRef := max (nextStartTimeRef idle) 1 + duration silence,
            created := created idle + 1,
            calls := calls idle @ [SourceStart (created idle) (max (nextStartTimeRef idle) 1)],
            audioSourcesRef := audioSourcesRef idle
              @ [\<lparr>node_id = created idle, node_started = True,
                  node_when = max (nextStartTimeRef idle) 1, node_duration = duration silence\<rparr>]\<rparr>)"
    by simp
  then have n: "nextStartTimeRef (snd (on_audio decoder24 1 ''AAAAAAAA'' idle)) = 8001 / 8000"
    by (simp add: o dur)
  from inst o l have c: "length (audioSourcesRef (enqueue_all decoder24 burst idle)) = 3"
    by (simp add: burst_def)
  from inst o have g: "gapless (audioSourcesRef (enqueue_all decoder24 burst idle))"
    "sorted (map node_when (audioSourcesRef (enqueue_all decoder24 burst idle)))"
    by simp_all
  show ?thesis using d o(1) l n c g burst_starts by simp
qed

subsection \<open>Sending captured audio\<close>

lemma sources_started_onaudioprocess:
  "sources_started st \<Longrightarrow> sources_started (snd (onaudioprocess ws inputData st))"
  by (auto simp: onaudioprocess_def send_audio_def sources_started_def Let_def split: sum.splits)

text \<open>
  Claim C7. Every captured chunk is encoded to a frame, without an error. The frame is
  sent on the socket exactly when the socket's \<open>readyState\<close> is \<open>OPEN\<close>. In any other
  state the guarded send does nothing: no error, no call on the socket, and the state
  is the one it was given; all the callback has changed is the volume meter it set
  before encoding.
\<close>

theorem audio_frame_sent_iff_open:
  "encode inputData = Inr (b64_encode (binary_string (buffer_bytes (pcmData inputData))))
   \<and> onaudioprocess ws inputData st =
       (None,
        send_audio ws (b64_encode (binary_string (buffer_bytes (pcmData inputData))))
          (st\<lparr>volume := rms_volume inputData\<rparr>))
   \<and> calls (snd (onaudioprocess ws inputData st)) =
       calls st @
         (if readyState ws = OPEN then
            [SocketSend (ws_id ws)
               (Audio (b64_encode (binary_string (buffer_bytes (pcmData inputData)))))]
          else [])
   \<and> (readyState ws = OPEN \<longrightarrow>
        send_audio ws base64Audio st =
          st\<lparr>calls := calls st @ [SocketSend (ws_id ws) (Audio base64Audio)]\<rparr>)
   \<and> (readyState ws \<noteq> OPEN \<longrightarrow> send_audio ws base64Audio st = st)
   \<and> (readyState ws \<noteq> OPEN \<longrightarrow>
        snd (onaudioprocess ws inputData st) = st\<lparr>volume := rms_volume inputData\<rparr>)"
  by (simp add: encode_ok onaudioprocess_def arrayBufferToBase64_ok send_audio_def)

theorem audio_frame_sent_iff_open_witness:
  "readyState open_socket = OPEN
   \<and> onaudioprocess open_socket [1 / 2, - (1 / 2)] idle =
       (None, send_audio open_socket ''/z8AwA=='' (idle\<lparr>volume := rms_volume [1 / 2, - (1 / 2)]\<rparr>))
   \<and> calls (snd (onaudioprocess open_socket [1 / 2, - (1 / 2)] idle)) =
       [SocketSend 7 (Audio ''/z8AwA=='')]
   \<and> readyState closing_socket \<noteq> OPEN
   \<and> calls (snd (onaudioprocess closing_socket [1 / 2, - (1 / 2)] idle)) = []
   \<and> send_audio closing_socket ''/z8AwA=='' idle = idle
   \<and> snd (onaudioprocess closing_socket [1 / 2, - (1 / 2)] idle) =
       idle\<lparr>volume := rms_volume [1 / 2, - (1 / 2)]\<rparr>"
proof -
  have w: "b64_encode (binary_string (buffer_bytes (pcmData [1 / 2, - (1 / 2)]))) = ''/z8AwA==''"
    by (simp only: pcm_half bytes_half b64_half)
  have o: "readyState open_socket = OPEN" "ws_id open_socket = 7"
    by (simp_all add: open_socket_def)
  have c: "readyState closing_socket \<noteq> OPEN"
    by (simp add: closing_socket_def)
  have i: "calls idle = []" by (simp add: idle_def)
  note sent = audio_frame_sent_iff_open
    [where inputData = "[1 / 2, - (1 / 2)]" and ws = open_socket and st = idle, unfolded w]
  note dropped = audio_frame_sent_iff_open
    [where inputData = "[1 / 2, - (1 / 2)]" and ws = closing_socket and st = idle
       and base64Audio = "''/z8AwA==''", unfolded w]
  from sent have s1: "onaudioprocess open_socket [1 / 2, - (1 / 2)] idle =
       (None, send_audio open_socket ''/z8AwA=='' (idle\<lparr>volume := rms_volume [1 / 2, - (1 / 2)]\<rparr>))"
    by blast
  from sent have "calls (snd (onaudioprocess open_socket [1 / 2, - (1 / 2)] idle)) =
       calls idle @
         (if readyState open_socket = OPEN then [SocketSend (ws_id open_socket) (Audio ''/z8AwA=='')]
          else [])"
    by blast
  then have s2: "calls (snd (onaudioprocess open_socket [1 / 2, - (1 / 2)] idle)) =
       [SocketSend 7 (Audio ''/z8AwA=='')]"
    by (simp add: o i)
  from dropped have "calls (snd (onaudioprocess closing_socket [1 / 2, - (1 / 2)] idle)) =
       calls idle @
         (if readyState closing_socket = OPEN
          then [SocketSend (ws_id closing_socket) (Audio ''/z8AwA=='')] else [])"
    by blast
  then have d1: "calls (snd (onaudioprocess closing_socket [1 / 2, - (1 / 2)] idle)) = []"
    by (simp add: c i)
  from dropped c have d2: "send_audio closing_socket ''/z8AwA=='' idle = idle"
    "snd (onaudioprocess closing_socket [1 / 2, - (1 / 2)] idle) =
       idle\<lparr>volume := rms_volume [1 / 2, - (1 / 2)]\<rparr>"
    by blast+
  show ?thesis using o(1) c s1 s2 d1 d2 by blast
qed

section \<open>Properties of the audio codec\<close>

subsection \<open>Base64 and the byte layout can be undone\<close>

lemma b64_value_char_all:
  "list_all (\<lambda>n. b64_value (b64_char n) = Some n \<and> b64_char n \<noteq> CHR ''='') [0..<64]"
  by code_simp

lemma b64_value_char: "n < 64 \<Longrightarrow> b64_value (b64_char n) = Some n"
  using b64_value_char_all by (simp add: list_all_iff)

lemma b64_char_not_pad: "n < 64 \<Longrightarrow> b64_char n \<noteq> CHR ''=''"
  using b64_value_char_all by (simp add: list_all_iff)

lemma sextet_bounds:
  fixes a b c :: nat
  assumes "a \<le> 255"
  shows "a div 4 < 64" "a div 16 < 16" "a div 64 < 4" "a mod 4 * 16 < 64" "a mod 16 * 4 < 64"
    "a mod 64 < 64"
proof -
  show "a div 4 < 64" "a div 16 < 16" "a div 64 < 4" using assms by linarith+
  have "a mod 4 \<le> 3" "a mod 16 \<le> 15" by linarith+
  then show "a mod 4 * 16 < 64" "a mod 16 * 4 < 64" by linarith+
  show "a mod 64 < 64" by simp
qed

lemma split_div: "k < n \<Longrightarrow> (x * n + k) div n = (x :: nat)"
  by simp

lemma sextet_sums:
  fixes a b c :: nat
  assumes "b \<le> 255" "c \<le> 255"
  shows "a mod 4 * 16 + b div 16 < 64" "b mod 16 * 4 + c div 64 < 64"
proof -
  have "a mod 4 \<le> 3" "b mod 16 \<le> 15" by linarith+
  moreover have "b div 16 \<le> 15" "c div 64 \<le> 3" using assms by linarith+
  ultimately show "a mod 4 * 16 + b div 16 < 64" "b mod 16 * 4 + c div 64 < 64"
    by linarith+
qed

lemma bytes_of_sextets:
  fixes a b c :: nat
  assumes "b \<le> 255" "c \<le> 255"
  shows "a div 4 * 4 + (a mod 4 * 16 + b div 16) div 16 = a"
    "(a mod 4 * 16 + b div 16) mod 16 * 16 + (b mod 16 * 4 + c div 64) div 4 = b"
    "(b mod 16 * 4 + c div 64) mod 4 * 64 + c mod 64 = c"
proof -
  have b: "b div 16 < 16" and c: "c div 64 < 4"
    using assms by (simp_all add: sextet_bounds)
  show "a div 4 * 4 + (a mod 4 * 16 + b div 16) div 16 = a"
    by (simp add: split_div [OF b])
  show "(a mod 4 * 16 + b div 16) mod 16 * 16 + (b mod 16 * 4 + c div 64) div 4 = b"
    by (simp add: mod_less [OF b] split_div [OF c])
  show "(b mod 16 * 4 + c div 64) mod 4 * 64 + c mod 64 = c"
    by (simp add: mod_less [OF c])
qed

lemma bytes_of_sextets_padded:
  fixes a b :: nat
  assumes "b \<le> 255"
  shows "a div 4 * 4 + (a mod 4 * 16) div 16 = a"
    "(a mod 4 * 16 + b div 16) mod 16 * 16 + (b mod 16 * 4) div 4 = b"
proof -
  have b: "b div 16 < 16" using assms by (simp add: sextet_bounds)
  show "a div 4 * 4 + (a mod 4 * 16) div 16 = a" by simp
  show "(a mod 4 * 16 + b div 16) mod 16 * 16 + (b mod 16 * 4) div 4 = b"
    by (simp add: mod_less [OF b])
qed

lemma b64_decode_quad:
  assumes "s0 < 64" "s1 < 64" "s2 < 64" "s3 < 64" "b64_decode (b64_encode rest) = Some rest"
  shows "b64_decode (b64_char s0 # b64_char s1 # b64_char s2 # b64_char s3 # b64_encode rest) =
     Some ((s0 * 4 + s1 div 16) # (s1 mod 16 * 16 + s2 div 4) # (s2 mod 4 * 64 + s3) # rest)"
  using assms by (simp add: b64_value_char b64_char_not_pad)

lemma b64_decode_pad1:
  assumes "s0 < 64" "s1 < 64" "s2 < 64"
  shows "b64_decode [b64_char s0, b64_char s1, b64_char s2, CHR ''=''] =
     Some [s0 * 4 + s1 div 16, s1 mod 16 * 16 + s2 div 4]"
  using assms by (simp add: b64_value_char b64_char_not_pad)

lemma b64_decode_pad2:
  assumes "s0 < 64" "s1 < 64"
  shows "b64_decode [b64_char s0, b64_char s1, CHR ''='', CHR ''=''] = Some [s0 * 4 + s1 div 16]"
  using assms by (simp add: b64_value_char)

lemma b64_decode_encode:
  "list_all (\<lambda>c. c \<le> 255) s \<Longrightarrow> b64_decode (b64_encode s) = Some s"
proof (induction s rule: b64_encode.induct)
  case 1
  show ?case by simp
next
  case (2 a)
  then have a: "a \<le> 255" by simp
  have "b64_decode (b64_encode [a]) = Some [a div 4 * 4 + (a mod 4 * 16) div 16]"
    unfolding b64_encode.simps
    by (rule b64_decode_pad2) (simp_all add: sextet_bounds [OF a])
  then show ?case by simp
next
  case (3 a b)
  then have a: "a \<le> 255" and b: "b \<le> 255" by simp_all
  have "b64_decode (b64_encode [a, b]) =
      Some [a div 4 * 4 + (a mod 4 * 16 + b div 16) div 16,
            (a mod 4 * 16 + b div 16) mod 16 * 16 + (b mod 16 * 4) div 4]"
    unfolding b64_encode.simps
    by (rule b64_decode_pad1)
      (simp_all add: sextet_bounds [OF a] sextet_bounds [OF b] sextet_sums [OF b b])
  then show ?case
    by (simp only: bytes_of_sextets [OF b b] bytes_of_sextets_padded [OF b])
next
  case (4 a b c rest)
  then have a: "a \<le> 255" and b: "b \<le> 255" and c: "c \<le> 255"
    and ih: "b64_decode (b64_encode rest) = Some rest"
    by simp_all
  have "b64_decode (b64_encode (a # b # c # rest)) =
      Some ((a div 4 * 4 + (a mod 4 * 16 + b div 16) div 16) #
            ((a mod 4 * 16 + b div 16) mod 16 * 16 + (b mod 16 * 4 + c div 64) div 4) #
            ((b mod 16 * 4 + c div 64) mod 4 * 64 + c mod 64) # rest)"
    unfolding b64_encode.simps append.simps
    by (rule b64_decode_quad)
      (simp_all add: sextet_bounds [OF a] sextet_bounds [OF c] sextet_sums [OF b c] ih)
  then show ?case
    by (simp only: bytes_of_sextets [OF b c])
qed

lemma int16_samples_bytes: "int16_samples (buffer_bytes ws) = ws"
proof (induction ws)
  case Nil
  show ?case by (simp add: buffer_bytes_def)
next
  case (Cons w ws)
  have lt: "unat w < 65536" using unsigned_less [of w, where ?'a = nat] by simp
  then have hi: "unat w div 256 < 256" by linarith
  have lo: "unat (of_nat (unat w mod 256) :: byte) = unat w mod 256"
    by (simp add: unat_of_nat)
  have hi': "unat (of_nat (unat w div 256) :: byte) = unat w div 256"
    using hi by (simp add: unat_of_nat)
  have "(of_nat (unat w mod 256 + 256 * (unat w div 256)) :: 16 word) = w"
    by simp
  with Cons show ?case
    by (simp add: buffer_bytes_def int16_bytes_def lo hi')
qed

lemma length_buffer_bytes: "length (buffer_bytes ws) = 2 * length ws"
  by (induction ws) (simp_all add: buffer_bytes_def int16_bytes_def)

lemma clamp_sample_range: "- 1 \<le> clamp_sample x" "clamp_sample x \<le> 1"
  by (simp_all add: clamp_sample_def)

lemma pcm_sample_scaled: "pcm_sample x = to_int16 (scaled (clamp_sample x))"
  by (simp add: pcm_sample_def Let_def)

lemma to_integer_scaled_range:
  assumes "- 1 \<le> s" "s \<le> 1"
  shows "- 32768 \<le> to_integer (scaled s)" "to_integer (scaled s) \<le> 32767"
proof -
  show "- 32768 \<le> to_integer (scaled s)"
  proof (cases "s < 0")
    case True
    with assms have "- 32768 \<le> s * 32768" by simp
    then have "- 32768 \<le> \<lceil>s * 32768\<rceil>" by linarith
    with True show ?thesis by (simp add: to_integer_def scaled_def mult_less_0_iff)
  next
    case False
    then have "0 \<le> s * 32767" by simp
    then have "0 \<le> \<lfloor>s * 32767\<rfloor>" by simp
    with False show ?thesis by (simp add: to_integer_def scaled_def mult_less_0_iff)
  qed
  show "to_integer (scaled s) \<le> 32767"
  proof (cases "s < 0")
    case True
    then have "s * 32768 \<le> 0" by simp
    then have "\<lceil>s * 32768\<rceil> \<le> 0" by (simp add: ceiling_le_iff)
    with True show ?thesis by (simp add: to_integer_def scaled_def mult_less_0_iff)
  next
    case False
    with assms have "s * 32767 \<le> 32767" by simp
    then have "\<lfloor>s * 32767\<rfloor> \<le> 32767" by (simp add: floor_le_iff)
    with False show ?thesis by (simp add: to_integer_def scaled_def mult_less_0_iff)
  qed
qed

lemma sint_word16: "- 32768 \<le> k \<Longrightarrow> k \<le> 32767 \<Longrightarrow> sint (word_of_int k :: 16 word) = k"
  by (simp add: sint_sbintrunc' signed_take_bit_int_eq_self)

lemma sint_pcm_sample: "sint (pcm_sample x) = to_integer (scaled (clamp_sample x))"
  unfolding pcm_sample_scaled to_int16_def
  by (rule sint_word16) (simp_all add: to_integer_scaled_range clamp_sample_range)

lemma rescale_error_negative:
  assumes "s < 0"
  shows "0 \<le> real_of_int (to_integer (scaled s)) / 32768 - s"
    "real_of_int (to_integer (scaled s)) / 32768 - s < 1 / 32768"
proof -
  have k: "to_integer (scaled s) = \<lceil>s * 32768\<rceil>"
    using assms by (simp add: to_integer_def scaled_def mult_less_0_iff)
  define c where "c = real_of_int \<lceil>s * 32768\<rceil>"
  have "s * 32768 \<le> c" "c < s * 32768 + 1"
    unfolding c_def by linarith+
  then have "0 \<le> c / 32768 - s" "c / 32768 - s < 1 / 32768"
    by linarith+
  then show "0 \<le> real_of_int (to_integer (scaled s)) / 32768 - s"
    "real_of_int (to_integer (scaled s)) / 32768 - s < 1 / 32768"
    unfolding k c_def by simp_all
qed

lemma rescale_error_nonnegative:
  assumes "0 \<le> s" "s \<le> 1"
  shows "0 \<le> s - real_of_int (to_integer (scaled s)) / 32768"
    "s - real_of_int (to_integer (scaled s)) / 32768 < 2 / 32768"
proof -
  have k: "to_integer (scaled s) = \<lfloor>s * 32767\<rfloor>"
    using assms by (simp add: to_integer_def scaled_def mult_less_0_iff)
  define f where "f = real_of_int \<lfloor>s * 32767\<rfloor>"
  have "f \<le> s * 32767" "s * 32767 < f + 1"
    unfolding f_def by linarith+
  with assms have "0 \<le> s - f / 32768" "s - f / 32768 < 2 / 32768"
    by linarith+
  then show "0 \<le> s - real_of_int (to_integer (scaled s)) / 32768"
    "s - real_of_int (to_integer (scaled s)) / 32768 < 2 / 32768"
    unfolding k f_def by simp_all
qed

lemma quantization_error:
  "\<bar>rescale (pcm_sample x) - clamp_sample x\<bar> < 2 / 32768"
proof (cases "clamp_sample x < 0")
  case True
  from rescale_error_negative [OF True] show ?thesis
    by (simp add: rescale_def sint_pcm_sample)
next
  case False
  then have "0 \<le> clamp_sample x" by simp
  from rescale_error_nonnegative [OF this clamp_sample_range(2)] show ?thesis
    by (simp add: rescale_def sint_pcm_sample)
qed

lemma base64ToUint8Array_encode:
  "base64ToUint8Array (b64_encode (binary_string bytes)) = Inr bytes"
proof -
  have "map of_nat (binary_string bytes) = bytes"
    by (simp add: binary_string_def map_idI)
  then show ?thesis
    by (simp add: base64ToUint8Array_def b64_decode_encode [OF binary_string_bytes])
qed

lemma decode_encode:
  assumes "encode x = Inr wire"
  shows "decode wire sampleRate 1 =
     Inr \<lparr>buffer_samples = map (\<lambda>v. rescale (pcm_sample v)) x,
          buffer_sampleRate = sampleRate, buffer_channels = 1\<rparr>"
proof -
  from assms have w: "wire = b64_encode (binary_string (buffer_bytes (pcmData x)))"
    by (simp add: encode_ok)
  show ?thesis
    unfolding w decode_def
    by (simp add: base64ToUint8Array_encode decodeAudioData_def length_buffer_bytes
        int16_samples_bytes pcmData_def)
qed

subsection \<open>The encoder\<close>

lemma buffer_bytes_nth:
  "i < length ws \<Longrightarrow>
   buffer_bytes ws ! (2 * i) = of_nat (unat (ws ! i) mod 256)
   \<and> buffer_bytes ws ! (2 * i + 1) = of_nat (unat (ws ! i) div 256)"
proof (induction ws arbitrary: i)
  case Nil
  then show ?case by simp
next
  case (Cons w ws)
  show ?case
  proof (cases i)
    case 0
    then show ?thesis by (simp add: buffer_bytes_def int16_bytes_def)
  next
    case (Suc j)
    with Cons.prems have "j < length ws" by simp
    from Cons.IH [OF this] Suc show ?thesis
      by (simp add: buffer_bytes_def int16_bytes_def)
  qed
qed

lemma unat_byte_parts:
  fixes w :: "16 word"
  shows "unat (of_nat (unat w mod 256) :: byte) = unat w mod 256"
    "unat (of_nat (unat w div 256) :: byte) = unat w div 256"
proof -
  have "unat w < 65536" using unsigned_less [of w, where ?'a = nat] by simp
  then have hi: "unat w div 256 < 256" by linarith
  show "unat (of_nat (unat w mod 256) :: byte) = unat w mod 256"
    by (simp add: unat_of_nat)
  show "unat (of_nat (unat w div 256) :: byte) = unat w div 256"
    using hi by (simp add: unat_of_nat)
qed

lemma clamp_sample_id: "- 1 \<le> v \<Longrightarrow> v \<le> 1 \<Longrightarrow> clamp_sample v = v"
  by (simp add: clamp_sample_def)

text \<open>
  Claim C6, as the code has it. The encoder is a function of the samples: it clamps each
  sample to \<open>[-1, 1]\<close> (samples in that range are unchanged), scales it by \<open>32768\<close>
  when negative and by \<open>32767\<close> otherwise, drops the fraction, which lands in the signed
  16-bit range without wrapping, writes each sample as two bytes, low byte first, and
  wraps the bytes in base64. It has no error branch at all: it succeeds on every input,
  and the empty chunk is encoded as the empty string.
\<close>

theorem encode_is_total:
  "encode x = Inr (b64_encode (binary_string (buffer_bytes (pcmData x))))
   \<and> encode [] = Inr []
   \<and> length (pcmData x) = length x
   \<and> length (buffer_bytes (pcmData x)) = 2 * length x
   \<and> (\<forall>i < length x.
         - 1 \<le> clamp_sample (x ! i) \<and> clamp_sample (x ! i) \<le> 1
         \<and> (- 1 \<le> x ! i \<and> x ! i \<le> 1 \<longrightarrow> clamp_sample (x ! i) = x ! i)
         \<and> sint (pcmData x ! i) = to_integer (scaled (clamp_sample (x ! i)))
         \<and> - 32768 \<le> sint (pcmData x ! i) \<and> sint (pcmData x ! i) \<le> 32767
         \<and> unat (buffer_bytes (pcmData x) ! (2 * i)) = unat (pcmData x ! i) mod 256
         \<and> unat (buffer_bytes (pcmData x) ! (2 * i + 1)) = unat (pcmData x ! i) div 256)"
proof -
  have empty: "encode [] = Inr []"
    by (simp add: encode_ok pcmData_def buffer_bytes_def binary_string_def)
  have len: "length (pcmData x) = length x" by (simp add: pcmData_def)
  have samples: "\<forall>i < length x.
         - 1 \<le> clamp_sample (x ! i) \<and> clamp_sample (x ! i) \<le> 1
         \<and> (- 1 \<le> x ! i \<and> x ! i \<le> 1 \<longrightarrow> clamp_sample (x ! i) = x ! i)
         \<and> sint (pcmData x ! i) = to_integer (scaled (clamp_sample (x ! i)))
         \<and> - 32768 \<le> sint (pcmData x ! i) \<and> sint (pcmData x ! i) \<le> 32767
         \<and> unat (buffer_bytes (pcmData x) ! (2 * i)) = unat (pcmData x ! i) mod 256
         \<and> unat (buffer_bytes (pcmData x) ! (2 * i + 1)) = unat (pcmData x ! i) div 256"
  proof (intro allI impI)
    fix i assume i: "i < length x"
    then have p: "pcmData x ! i = pcm_sample (x ! i)" by (simp add: pcmData_def)
    have s: "sint (pcmData x ! i) = to_integer (scaled (clamp_sample (x ! i)))"
      by (simp only: p sint_pcm_sample)
    have r: "- 32768 \<le> sint (pcmData x ! i)" "sint (pcmData x ! i) \<le> 32767"
      unfolding s by (rule to_integer_scaled_range; rule clamp_sample_range)+
    from i len have "i < length (pcmData x)" by simp
    from buffer_bytes_nth [OF this]
    have b: "unat (buffer_bytes (pcmData x) ! (2 * i)) = unat (pcmData x ! i) mod 256"
      "unat (buffer_bytes (pcmData x) ! (2 * i + 1)) = unat (pcmData x ! i) div 256"
      by (simp_all only: unat_byte_parts)
    show "- 1 \<le> clamp_sample (x ! i) \<and> clamp_sample (x ! i) \<le> 1
         \<and> (- 1 \<le> x ! i \<and> x ! i \<le> 1 \<longrightarrow> clamp_sample (x ! i) = x ! i)
         \<and> sint (pcmData x ! i) = to_integer (scaled (clamp_sample (x ! i)))
         \<and> - 32768 \<le> sint (pcmData x ! i) \<and> sint (pcmData x ! i) \<le> 32767
         \<and> unat (buffer_bytes (pcmData x) ! (2 * i)) = unat (pcmData x ! i) mod 256
         \<and> unat (buffer_bytes (pcmData x) ! (2 * i + 1)) = unat (pcmData x ! i) div 256"
      using clamp_sample_range [of "x ! i"] clamp_sample_id [of "x ! i"] s r b
      by (intro conjI impI) blast+
  qed
  show ?thesis
    using encode_ok [of x] empty len length_buffer_bytes [of "pcmData x"] samples
    by (simp only: len)
qed

text \<open>The claim as first stated has the encoder fail on the empty chunk; it returns the
  empty string.\<close>

theorem encode_is_total_counterexample: "encode [] = Inr []"
  by (simp add: encode_ok pcmData_def buffer_bytes_def binary_string_def)

theorem encode_is_total_witness:
  "(1 :: nat) < length [2 :: real, - (1 / 2)]
   \<and> - 1 \<le> [2 :: real, - (1 / 2)] ! 1 \<and> [2 :: real, - (1 / 2)] ! 1 \<le> 1
   \<and> clamp_sample ([2, - (1 / 2)] ! 1) = - (1 / 2)
   \<and> sint (pcmData [2, - (1 / 2)] ! 1) = - 16384
   \<and> unat (buffer_bytes (pcmData [2, - (1 / 2)]) ! 2) = 0
   \<and> unat (buffer_bytes (pcmData [2, - (1 / 2)]) ! 3) = 192
   \<and> encode [2, - (1 / 2)] = Inr ''/38AwA==''"
proof -
  let ?x = "[2 :: real, - (1 / 2)]"
  have l: "(1 :: nat) < length ?x" by simp
  have r: "- 1 \<le> ?x ! 1" "?x ! 1 \<le> 1" by simp_all
  have p: "pcmData ?x = [32767, 49152]"
    by (simp add: pcmData_def pcm_sample_def scaled_def clamp_sample_def to_int16_def
        to_integer_def)
  have w: "b64_encode (binary_string (buffer_bytes [32767, 49152])) = ''/38AwA==''"
    by (simp add: buffer_bytes_def int16_bytes_def binary_string_def b64_char_def
        b64_alphabet_def)
  have t: "to_integer (scaled (- (1 / 2))) = - 16384"
    by (simp add: to_integer_def scaled_def)
  note inst = encode_is_total [of ?x]
  from inst l r have c: "clamp_sample (?x ! 1) = ?x ! 1" by blast
  from inst l have "sint (pcmData ?x ! 1) = to_integer (scaled (clamp_sample (?x ! 1)))"
    by blast
  with c t have s: "sint (pcmData ?x ! 1) = - 16384" by simp
  from inst l have "unat (buffer_bytes (pcmData ?x) ! (2 * 1)) = unat (pcmData ?x ! 1) mod 256"
    "unat (buffer_bytes (pcmData ?x) ! (2 * 1 + 1)) = unat (pcmData ?x ! 1) div 256"
    by blast+
  then have b: "unat (buffer_bytes (pcmData ?x) ! 2) = 0"
    "unat (buffer_bytes (pcmData ?x) ! 3) = 192"
    by (simp_all add: p)
  from inst have "encode ?x = Inr (b64_encode (binary_string (buffer_bytes (pcmData ?x))))"
    by blast
  then have e: "encode ?x = Inr ''/38AwA==''" by (simp only: p w)
  from c have c': "clamp_sample (?x ! 1) = - (1 / 2)" by simp
  show ?thesis using l r c' s b e by blast
qed

subsection \<open>Decoding what was encoded\<close>

lemma pcm_near_one: "pcmData [65535 / 65536] = [32766]"
  by (simp add: pcmData_def pcm_sample_def scaled_def clamp_sample_def to_int16_def to_integer_def)

lemma bytes_near_one: "buffer_bytes [32766] = [254, 127]"
  by (simp add: buffer_bytes_def int16_bytes_def)

lemma b64_near_one: "b64_encode (binary_string [254, 127]) = ''/n8=''"
  by (simp add: binary_string_def b64_char_def b64_alphabet_def)

lemma encode_near_one: "encode [65535 / 65536] = Inr ''/n8=''"
  by (simp only: encode_ok pcm_near_one bytes_near_one b64_near_one)

lemma rescale_near_one: "rescale (pcm_sample (65535 / 65536)) = 16383 / 16384"
proof -
  have "pcm_sample (65535 / 65536) = 32766"
    using pcm_near_one by (simp add: pcmData_def)
  then show ?thesis by (simp add: rescale_def)
qed

text \<open>
  The bound of one quantization step fails: \<open>65535 / 65536\<close> is stored as \<open>32766\<close>
  (positive samples are scaled by \<open>32767\<close>) and comes back as \<open>32766 / 32768\<close>, which is
  \<open>3 / 65536\<close> away.
\<close>

theorem roundtrip_counterexample:
  "encode [65535 / 65536] = Inr ''/n8=''
   \<and> decode ''/n8='' 24000 1 =
       Inr \<lparr>buffer_samples = [16383 / 16384], buffer_sampleRate = 24000, buffer_channels = 1\<rparr>
   \<and> clamp_sample (65535 / 65536) = 65535 / 65536
   \<and> \<not> \<bar>16383 / 16384 - clamp_sample (65535 / 65536)\<bar> \<le> 1 / 32768"
proof -
  have "decode ''/n8='' 24000 1 =
       Inr \<lparr>buffer_samples = [16383 / 16384], buffer_sampleRate = 24000, buffer_channels = 1\<rparr>"
    using decode_encode [OF encode_near_one, of 24000] by (simp add: rescale_near_one)
  moreover have c: "clamp_sample (65535 / 65536) = 65535 / 65536"
    by (simp add: clamp_sample_def)
  moreover have "\<not> \<bar>16383 / 16384 - clamp_sample (65535 / 65536)\<bar> \<le> 1 / 32768"
    unfolding c by simp
  ultimately show ?thesis using encode_near_one by blast
qed

text \<open>
  The excess does not come from the divisor chosen for the decoder: two samples more
  than two steps apart are both stored as \<open>0\<close>, so no rescaling of the stored value is
  within one step of both.
\<close>

lemma no_rescale_within_one_step:
  fixes r :: "16 word \<Rightarrow> real"
  shows "\<not> (\<bar>r (pcm_sample (- (131071 / 4294967296))) - clamp_sample (- (131071 / 4294967296))\<bar>
            \<le> 1 / 32768
          \<and> \<bar>r (pcm_sample (65537 / 2147483648)) - clamp_sample (65537 / 2147483648)\<bar>
            \<le> 1 / 32768)"
proof -
  have a: "pcm_sample (- (131071 / 4294967296)) = 0"
    by (simp add: pcm_sample_def scaled_def clamp_sample_def to_int16_def to_integer_def)
  have b: "pcm_sample (65537 / 2147483648) = 0"
    by (simp add: pcm_sample_def scaled_def clamp_sample_def to_int16_def to_integer_def)
  have c: "clamp_sample (- (131071 / 4294967296)) = - (131071 / 4294967296)"
    "clamp_sample (65537 / 2147483648) = 65537 / 2147483648"
    by (simp_all add: clamp_sample_def)
  show ?thesis unfolding a b c by linarith
qed

text \<open>
  Claim C3, as the code has it. For every chunk \<open>x\<close>, the encoder succeeds, the decoder
  accepts its output (as mono audio at any sample rate) and returns as many samples as
  \<open>x\<close> has; each differs from the clamped sample of \<open>x\<close> by less than two quantization
  steps (\<open>2 / 32768\<close>), and by less than one step when the clamped sample is negative.
\<close>

theorem roundtrip_within_two_steps:
  "encode x = Inr (b64_encode (binary_string (buffer_bytes (pcmData x))))
   \<and> decode (b64_encode (binary_string (buffer_bytes (pcmData x)))) sampleRate 1 =
       Inr \<lparr>buffer_samples = map (\<lambda>v. rescale (pcm_sample v)) x,
            buffer_sampleRate = sampleRate, buffer_channels = 1\<rparr>
   \<and> length (map (\<lambda>v. rescale (pcm_sample v)) x) = length x
   \<and> (\<forall>i < length x.
         \<bar>map (\<lambda>v. rescale (pcm_sample v)) x ! i - clamp_sample (x ! i)\<bar> < 2 / 32768
         \<and> (clamp_sample (x ! i) < 0 \<longrightarrow>
              \<bar>map (\<lambda>v. rescale (pcm_sample v)) x ! i - clamp_sample (x ! i)\<bar> < 1 / 32768))"
proof -
  have neg: "\<bar>rescale (pcm_sample v) - clamp_sample v\<bar> < 1 / 32768" if "clamp_sample v < 0" for v
    using rescale_error_negative [OF that] by (simp add: rescale_def sint_pcm_sample)
  have close: "\<forall>i < length x.
         \<bar>map (\<lambda>v. rescale (pcm_sample v)) x ! i - clamp_sample (x ! i)\<bar> < 2 / 32768
         \<and> (clamp_sample (x ! i) < 0 \<longrightarrow>
              \<bar>map (\<lambda>v. rescale (pcm_sample v)) x ! i - clamp_sample (x ! i)\<bar> < 1 / 32768)"
  proof (intro allI impI conjI)
    fix i assume i: "i < length x"
    then show "\<bar>map (\<lambda>v. rescale (pcm_sample v)) x ! i - clamp_sample (x ! i)\<bar> < 2 / 32768"
      using quantization_error [of "x ! i"] by (simp only: nth_map)
    assume "clamp_sample (x ! i) < 0"
    from neg [OF this] i
    show "\<bar>map (\<lambda>v. rescale (pcm_sample v)) x ! i - clamp_sample (x ! i)\<bar> < 1 / 32768"
      by (simp only: nth_map)
  qed
  have len: "length (map (\<lambda>v. rescale (pcm_sample v)) x) = length x" by simp
  show ?thesis
    using encode_ok [of x] decode_encode [OF encode_ok, of x sampleRate] len close
    by (intro conjI)
qed

theorem roundtrip_within_two_steps_witness:
  "(0 :: nat) < length [65535 / 65536 :: real, - (1 / 2)]
   \<and> (1 :: nat) < length [65535 / 65536 :: real, - (1 / 2)]
   \<and> clamp_sample ([65535 / 65536, - (1 / 2)] ! 1) < 0
   \<and> \<bar>map (\<lambda>v. rescale (pcm_sample v)) [65535 / 65536, - (1 / 2)] ! 0
        - clamp_sample ([65535 / 65536, - (1 / 2)] ! 0)\<bar> < 2 / 32768
   \<and> \<bar>map (\<lambda>v. rescale (pcm_sample v)) [65535 / 65536, - (1 / 2)] ! 1
        - clamp_sample ([65535 / 65536, - (1 / 2)] ! 1)\<bar> < 1 / 32768
   \<and> decode (b64_encode (binary_string (buffer_bytes (pcmData [65535 / 65536, - (1 / 2)])))) 24000 1 =
       Inr \<lparr>buffer_samples = map (\<lambda>v. rescale (pcm_sample v)) [65535 / 65536, - (1 / 2)],
            buffer_sampleRate = 24000, buffer_channels = 1\<rparr>"
proof -
  let ?x = "[65535 / 65536 :: real, - (1 / 2)]"
  have l: "(0 :: nat) < length ?x" "(1 :: nat) < length ?x" by simp_all
  have c: "clamp_sample (?x ! 1) < 0" by (simp add: clamp_sample_def)
  note inst = roundtrip_within_two_steps [of ?x 24000]
  from inst l(1) have a: "\<bar>map (\<lambda>v. rescale (pcm_sample v)) ?x ! 0 - clamp_sample (?x ! 0)\<bar> < 2 / 32768"
    by blast
  from inst l(2) c have b: "\<bar>map (\<lambda>v. rescale (pcm_sample v)) ?x ! 1 - clamp_sample (?x ! 1)\<bar> < 1 / 32768"
    by blast
  from inst have d: "decode (b64_encode (binary_string (buffer_bytes (pcmData ?x)))) 24000 1 =
       Inr \<lparr>buffer_samples = map (\<lambda>v. rescale (pcm_sample v)) ?x,
            buffer_sampleRate = 24000, buffer_channels = 1\<rparr>"
    by blast
  show ?thesis using l c a b d by blast
qed

end
